theory Spec2Isabelle
  imports Complex_Main "HOL-Library.Word"
begin

section \<open>The alternating adversarial trainer of the precipitation downscaling notebook\<close>

text \<open>
  The development embeds the class \<open>DownscalingGAN\<close> of
  \<^verbatim>\<open>tier_3/post_processing/precipitation_downscaling_gan.ipynb\<close> (its constructor, the
  \<open>metrics\<close> property, \<open>compile\<close> and \<open>train_step\<close> with the two closures
  \<open>train_discriminator\<close> and \<open>train_generator\<close>) together with the few TensorFlow/Keras
  primitives the class calls.

  Conventions.
  \<^item> A batch is the list of its samples along axis 0, so \<open>tf.concat(_, axis=0)\<close> is \<open>@\<close> and
    \<open>tf.shape(_)[0]\<close> is \<open>length\<close>. Low-resolution and high-resolution samples are kept
    abstract (\<open>'x\<close> and \<open>'y\<close>).
  \<^item> Loss values are real numbers: the rounding of the float32 arithmetic of the framework
    is not part of the model.
  \<^item> The two networks, the loss, the gradient tapes, the optimizers and the scalar normal
    sampler are the collaborators of the class; they are parameters of the model.
\<close>

subsection \<open>Tensors and the normal sampler\<close>

datatype tensor = Scalar real | Axis "tensor list"

fun has_shape :: "nat list \<Rightarrow> tensor \<Rightarrow> bool" where
  "has_shape [] (Scalar x) = True"
| "has_shape (n # ns) (Axis ts) = (length ts = n \<and> list_all (has_shape ns) ts)"
| "has_shape [] (Axis ts) = False"
| "has_shape (n # ns) (Scalar x) = False"

text \<open>\<open>draw_many d n\<close> runs the state-passing draw \<open>d\<close> \<open>n\<close> times in sequence.\<close>

primrec draw_many :: "('r \<Rightarrow> 'a \<times> 'r) \<Rightarrow> nat \<Rightarrow> 'r \<Rightarrow> 'a list \<times> 'r" where
  "draw_many d 0 r = ([], r)"
| "draw_many d (Suc n) r =
     (case d r of (x, r1) \<Rightarrow> (case draw_many d n r1 of (xs, r2) \<Rightarrow> (x # xs, r2)))"

text \<open>
  \<open>tf.random.normal(shape, mean, stddev)\<close>: a tensor of the requested shape, every entry
  one draw of the scalar sampler \<open>d mean stddev\<close>, which threads the generator state.
\<close>

primrec tf_random_normal ::
  "(real \<Rightarrow> real \<Rightarrow> 'r \<Rightarrow> real \<times> 'r) \<Rightarrow> nat list \<Rightarrow> real \<Rightarrow> real \<Rightarrow> 'r \<Rightarrow> tensor \<times> 'r" where
  "tf_random_normal d [] mean stddev =
     (\<lambda>r. case d mean stddev r of (x, r1) \<Rightarrow> (Scalar x, r1))"
| "tf_random_normal d (n # ns) mean stddev =
     (\<lambda>r. case draw_many (tf_random_normal d ns mean stddev) n r of (ts, r1) \<Rightarrow> (Axis ts, r1))"

text \<open>The slices of a tensor along axis 0; a scalar has none.\<close>

fun unstack :: "tensor \<Rightarrow> tensor list" where
  "unstack (Axis ts) = ts"
| "unstack (Scalar x) = []"

text \<open>\<open>tf.ones((n, m))\<close> and \<open>tf.zeros((n, m))\<close>: \<open>n\<close> rows of \<open>m\<close> entries.\<close>

definition tf_ones :: "nat \<times> nat \<Rightarrow> real list list" where
  "tf_ones sh = (case sh of (n, m) \<Rightarrow> replicate n (replicate m 1))"

definition tf_zeros :: "nat \<times> nat \<Rightarrow> real list list" where
  "tf_zeros sh = (case sh of (n, m) \<Rightarrow> replicate n (replicate m 0))"

subsection \<open>\<open>keras.metrics.Mean\<close>\<close>

text \<open>
  The metric keeps the sum of the recorded values and their number; \<open>update_state\<close> with a
  scalar adds it and counts one; \<open>result\<close> is \<open>div_no_nan(total, count)\<close>.
\<close>

record Mean =
  total :: real
  count :: nat

definition Mean_new :: Mean where
  "Mean_new = \<lparr>total = 0, count = 0\<rparr>"

definition update_state :: "Mean \<Rightarrow> real \<Rightarrow> Mean" where
  "update_state m v = m\<lparr>total := total m + v, count := count m + 1\<rparr>"

definition reset_state :: "Mean \<Rightarrow> Mean" where
  "reset_state m = m\<lparr>total := 0, count := 0\<rparr>"

definition div_no_nan :: "real \<Rightarrow> real \<Rightarrow> real" where
  "div_no_nan x y = (if y = 0 then 0 else x / y)"

definition result :: "Mean \<Rightarrow> real" where
  "result m = div_no_nan (total m) (real (count m))"

subsection \<open>Collaborators and trainer state\<close>

datatype error = InvalidArgumentError

text \<open>
  The collaborators. \<open>generator\<close> and \<open>discriminator\<close> are the forward passes of the
  networks built by \<open>create_generator\<close> and \<open>create_discriminator\<close> on one sample: every
  layer used there (convolution, leaky ReLU, bilinear upsampling, concatenation, global
  average pooling over the spatial axes, dense) treats the samples of a batch
  independently and keeps no state besides its trainable weights. \<open>gradient_d f w\<close> and
  \<open>gradient_g f w\<close> stand for \<open>tape.gradient(loss, weights)\<close> where \<open>f\<close> is the computation
  recorded on the tape as a function of the weights it is differentiated against.
  An optimizer maps its own state, the gradients and the weights to the new weights and
  its new state. \<open>normal mean stddev\<close> draws one scalar.
\<close>

record ('x, 'y, 'gw, 'dw, 'go, 'do, 'r) collaborators =
  generator :: "'gw \<Rightarrow> 'x \<Rightarrow> tensor \<Rightarrow> 'y"
  discriminator :: "'dw \<Rightarrow> 'x \<Rightarrow> 'y \<Rightarrow> real"
  loss_fn :: "real list list \<Rightarrow> real list list \<Rightarrow> real"
  gradient_d :: "('dw \<Rightarrow> real) \<Rightarrow> 'dw \<Rightarrow> 'dw"
  gradient_g :: "('gw \<Rightarrow> real) \<Rightarrow> 'gw \<Rightarrow> 'gw"
  d_optimizer :: "'do \<Rightarrow> 'dw \<Rightarrow> 'dw \<Rightarrow> 'dw \<times> 'do"
  g_optimizer :: "'go \<Rightarrow> 'gw \<Rightarrow> 'gw \<Rightarrow> 'gw \<times> 'go"
  normal :: "real \<Rightarrow> real \<Rightarrow> 'r \<Rightarrow> real \<times> 'r"

text \<open>
  The mutable state: the trainable weights of the two networks, the slots of the two
  optimizers, the fields set by \<open>__init__\<close>, and the state of the framework's random
  generator. \<open>step_number\<close> is \<open>tf.Variable(0)\<close>, a 32-bit signed integer.
\<close>

record ('gw, 'dw, 'go, 'do, 'r) DownscalingGAN =
  discriminator_weights :: 'dw
  generator_weights :: 'gw
  noise_shape :: "nat list"
  gen_loss_tracker :: Mean
  disc_loss_tracker :: Mean
  step_number :: "32 word"
  d_optimizer_state :: 'do
  g_optimizer_state :: 'go
  rng :: 'r

text \<open>
  \<open>DownscalingGAN(discriminator, generator, noise_shape)\<close> followed by
  \<open>compile(d_optimizer, g_optimizer, loss_fn)\<close>.
\<close>

definition init ::
  "'dw \<Rightarrow> 'gw \<Rightarrow> nat list \<Rightarrow> 'do \<Rightarrow> 'go \<Rightarrow> 'r \<Rightarrow> ('gw, 'dw, 'go, 'do, 'r) DownscalingGAN" where
  "init discriminator0 generator0 shape d_opt g_opt seed =
     \<lparr>discriminator_weights = discriminator0,
      generator_weights = generator0,
      noise_shape = shape,
      gen_loss_tracker = Mean_new,
      disc_loss_tracker = Mean_new,
      step_number = 0,
      d_optimizer_state = d_opt,
      g_optimizer_state = g_opt,
      rng = seed\<rparr>"

text \<open>The default of the constructor, \<open>noise_shape=(4,4,8)\<close>.\<close>

definition default_noise_shape :: "nat list" where
  "default_noise_shape = [4, 4, 8]"

text \<open>The \<open>metrics\<close> property: the two trackers, by reference, generator first.\<close>

datatype metric_ref = Gen_loss_tracker | Disc_loss_tracker

definition metrics :: "('gw, 'dw, 'go, 'do, 'r) DownscalingGAN \<Rightarrow> metric_ref list" where
  "metrics self = [Gen_loss_tracker, Disc_loss_tracker]"

subsection \<open>Calling a network on a batch\<close>

text \<open>
  A Keras model with two inputs, called on two batches: the batch sizes must agree
  (otherwise the framework raises), and the samples are processed pairwise.
\<close>

definition call_model :: "('a \<Rightarrow> 'b \<Rightarrow> 'c) \<Rightarrow> 'a list \<Rightarrow> 'b list \<Rightarrow> error + 'c list" where
  "call_model f xs ys =
     (if length xs = length ys then Inr (map2 f xs ys) else Inl InvalidArgumentError)"

text \<open>The generator receives the noise tensor and splits it along the batch axis.\<close>

definition call_generator ::
  "('x, 'y, 'gw, 'dw, 'go, 'do, 'r) collaborators \<Rightarrow> 'gw \<Rightarrow> 'x list \<Rightarrow> tensor \<Rightarrow> error + 'y list" where
  "call_generator env gw samples_lr noise =
     (case noise of
        Scalar x \<Rightarrow> Inl InvalidArgumentError
      | Axis zs \<Rightarrow> call_model (generator env gw) samples_lr zs)"

text \<open>The discriminator ends in \<open>Dense(1)\<close>: one row with one score per sample.\<close>

definition call_discriminator ::
  "('x, 'y, 'gw, 'dw, 'go, 'do, 'r) collaborators \<Rightarrow> 'dw \<Rightarrow> 'x list \<Rightarrow> 'y list \<Rightarrow> error + real list list" where
  "call_discriminator env dw samples_lr samples_hr =
     call_model (\<lambda>l h. [discriminator env dw l h]) samples_lr samples_hr"

subsection \<open>\<open>train_step\<close>\<close>

text \<open>
  The closure \<open>train_discriminator\<close>. The generated samples are computed outside the
  tape; the tape records the discriminator call and the loss, as a function of the
  discriminator weights.
\<close>

definition train_discriminator ::
  "('x, 'y, 'gw, 'dw, 'go, 'do, 'r) collaborators \<Rightarrow> ('gw, 'dw, 'go, 'do, 'r) DownscalingGAN \<Rightarrow>
   'x list \<Rightarrow> 'y list \<Rightarrow> nat \<Rightarrow> tensor \<Rightarrow> error + ('gw, 'dw, 'go, 'do, 'r) DownscalingGAN" where
  "train_discriminator env self samples_lr samples_hr batch_size noise =
     (case call_generator env (generator_weights self) samples_lr noise of
        Inl e \<Rightarrow> Inl e
      | Inr samples_gen \<Rightarrow>
          let combined_samples_hr = samples_gen @ samples_hr;
              combined_samples_lr = samples_lr @ samples_lr;
              labels = tf_ones (batch_size, 1) @ tf_zeros (batch_size, 1)
          in (case call_discriminator env (discriminator_weights self)
                     combined_samples_lr combined_samples_hr of
                Inl e \<Rightarrow> Inl e
              | Inr predictions \<Rightarrow>
                  let d_loss = loss_fn env labels predictions;
                      tape = (\<lambda>dw. loss_fn env labels
                                (map2 (\<lambda>l h. [discriminator env dw l h])
                                   combined_samples_lr combined_samples_hr));
                      grads = gradient_d env tape (discriminator_weights self)
                  in (case d_optimizer env (d_optimizer_state self) grads
                            (discriminator_weights self) of
                        (dw', opt') \<Rightarrow>
                          Inr (self\<lparr>discriminator_weights := dw',
                                    d_optimizer_state := opt',
                                    disc_loss_tracker :=
                                      update_state (disc_loss_tracker self) d_loss\<rparr>))))"

text \<open>
  The closure \<open>train_generator\<close>. The tape records the generator call, the discriminator
  call and the loss; the gradient is taken against the generator weights, and only the
  generator's optimizer is applied.
\<close>

definition train_generator ::
  "('x, 'y, 'gw, 'dw, 'go, 'do, 'r) collaborators \<Rightarrow> ('gw, 'dw, 'go, 'do, 'r) DownscalingGAN \<Rightarrow>
   'x list \<Rightarrow> 'y list \<Rightarrow> nat \<Rightarrow> tensor \<Rightarrow> error + ('gw, 'dw, 'go, 'do, 'r) DownscalingGAN" where
  "train_generator env self samples_lr samples_hr batch_size noise =
     (let misleading_labels = tf_zeros (batch_size, 1)
      in (case call_generator env (generator_weights self) samples_lr noise of
            Inl e \<Rightarrow> Inl e
          | Inr samples_gen \<Rightarrow>
              (case call_discriminator env (discriminator_weights self) samples_lr samples_gen of
                 Inl e \<Rightarrow> Inl e
               | Inr predictions \<Rightarrow>
                   let g_loss = loss_fn env misleading_labels predictions;
                       tape = (\<lambda>gw. loss_fn env misleading_labels
                                 (map2 (\<lambda>l h. [discriminator env (discriminator_weights self) l h])
                                    samples_lr
                                    (map2 (generator env gw) samples_lr (unstack noise))));
                       grads = gradient_g env tape (generator_weights self)
                   in (case g_optimizer env (g_optimizer_state self) grads
                             (generator_weights self) of
                         (gw', opt') \<Rightarrow>
                           Inr (self\<lparr>generator_weights := gw',
                                     g_optimizer_state := opt',
                                     gen_loss_tracker :=
                                       update_state (gen_loss_tracker self) g_loss\<rparr>)))))"

text \<open>
  \<open>train_step\<close>: unpack the batch, draw the noise with the sampler's defaults (mean 0,
  standard deviation 1), run the closure selected by \<open>tf.cond\<close> on
  \<open>step_number % 2 == 0\<close> (the remainder of floored division), add one to the counter
  (32-bit addition) and return the dictionary of the two tracker results.
\<close>

definition train_step ::
  "('x, 'y, 'gw, 'dw, 'go, 'do, 'r) collaborators \<Rightarrow> ('gw, 'dw, 'go, 'do, 'r) DownscalingGAN \<Rightarrow>
   'x list \<times> 'y list \<Rightarrow>
   error + (('gw, 'dw, 'go, 'do, 'r) DownscalingGAN \<times> (string \<times> real) list)" where
  "train_step env self data =
     (case data of (samples_lr, samples_hr) \<Rightarrow>
        let batch_size = length samples_hr
        in (case tf_random_normal (normal env) (batch_size # noise_shape self) 0 1 (rng self) of
              (noise, rng') \<Rightarrow>
                let self1 = self\<lparr>rng := rng'\<rparr>
                in (case (if sint (step_number self1) mod 2 = 0
                          then train_discriminator env self1 samples_lr samples_hr batch_size noise
                          else train_generator env self1 samples_lr samples_hr batch_size noise) of
                      Inl e \<Rightarrow> Inl e
                    | Inr self2 \<Rightarrow>
                        let self3 = self2\<lparr>step_number := step_number self2 + 1\<rparr>
                        in Inr (self3,
                                [(''g_loss'', result (gen_loss_tracker self3)),
                                 (''d_loss'', result (disc_loss_tracker self3))]))))"

subsection \<open>The training driver\<close>

text \<open>A sequence of \<open>train_step\<close> calls, one per batch; an error ends the run.\<close>

fun train_steps ::
  "('x, 'y, 'gw, 'dw, 'go, 'do, 'r) collaborators \<Rightarrow> ('gw, 'dw, 'go, 'do, 'r) DownscalingGAN \<Rightarrow>
   ('x list \<times> 'y list) list \<Rightarrow> error + ('gw, 'dw, 'go, 'do, 'r) DownscalingGAN" where
  "train_steps env self [] = Inr self"
| "train_steps env self (data # rest) =
     (case train_step env self data of
        Inl e \<Rightarrow> Inl e
      | Inr (self', logs) \<Rightarrow> train_steps env self' rest)"

text \<open>
  \<open>Model.reset_metrics\<close> of Keras: \<open>reset_state\<close> on every metric listed by the
  \<open>metrics\<close> property.
\<close>

definition reset_metric ::
  "metric_ref \<Rightarrow> ('gw, 'dw, 'go, 'do, 'r) DownscalingGAN \<Rightarrow> ('gw, 'dw, 'go, 'do, 'r) DownscalingGAN" where
  "reset_metric m self =
     (case m of
        Gen_loss_tracker \<Rightarrow> self\<lparr>gen_loss_tracker := reset_state (gen_loss_tracker self)\<rparr>
      | Disc_loss_tracker \<Rightarrow> self\<lparr>disc_loss_tracker := reset_state (disc_loss_tracker self)\<rparr>)"

definition reset_metrics ::
  "('gw, 'dw, 'go, 'do, 'r) DownscalingGAN \<Rightarrow> ('gw, 'dw, 'go, 'do, 'r) DownscalingGAN" where
  "reset_metrics self = fold reset_metric (metrics self) self"

text \<open>
  \<open>gan.fit(dataset, epochs=n)\<close>, the driver of Keras the notebook trains with: at the
  start of every epoch it calls \<open>reset_metrics\<close>, then \<open>train_step\<close> on every batch of
  the epoch. The argument lists the batches of each epoch (the dataset is reshuffled
  for every epoch).
\<close>

fun fit ::
  "('x, 'y, 'gw, 'dw, 'go, 'do, 'r) collaborators \<Rightarrow> ('gw, 'dw, 'go, 'do, 'r) DownscalingGAN \<Rightarrow>
   ('x list \<times> 'y list) list list \<Rightarrow> error + ('gw, 'dw, 'go, 'do, 'r) DownscalingGAN" where
  "fit env self [] = Inr self"
| "fit env self (batches # epochs) =
     (case train_steps env (reset_metrics self) batches of
        Inl e \<Rightarrow> Inl e
      | Inr self' \<Rightarrow> fit env self' epochs)"

subsection \<open>What a call does: the branch it runs and the loss it computes\<close>

datatype branch = Discriminator_branch | Generator_branch

definition selected_branch :: "('gw, 'dw, 'go, 'do, 'r) DownscalingGAN \<Rightarrow> branch" where
  "selected_branch self =
     (if sint (step_number self) mod 2 = 0 then Discriminator_branch else Generator_branch)"

text \<open>The noise tensor a call of \<open>train_step\<close> draws.\<close>

definition noise_of ::
  "('x, 'y, 'gw, 'dw, 'go, 'do, 'r) collaborators \<Rightarrow> ('gw, 'dw, 'go, 'do, 'r) DownscalingGAN \<Rightarrow>
   'x list \<times> 'y list \<Rightarrow> tensor" where
  "noise_of env self data =
     fst (tf_random_normal (normal env) (length (snd data) # noise_shape self) 0 1 (rng self))"

text \<open>The value of \<open>d_loss\<close> in \<open>train_discriminator\<close> and of \<open>g_loss\<close> in \<open>train_generator\<close>.\<close>

definition d_loss_of ::
  "('x, 'y, 'gw, 'dw, 'go, 'do, 'r) collaborators \<Rightarrow> ('gw, 'dw, 'go, 'do, 'r) DownscalingGAN \<Rightarrow>
   'x list \<times> 'y list \<Rightarrow> real" where
  "d_loss_of env self data =
     (case data of (samples_lr, samples_hr) \<Rightarrow>
        loss_fn env
          (tf_ones (length samples_hr, 1) @ tf_zeros (length samples_hr, 1))
          (map2 (\<lambda>l h. [discriminator env (discriminator_weights self) l h])
             (samples_lr @ samples_lr)
             (map2 (generator env (generator_weights self)) samples_lr
                (unstack (noise_of env self data)) @ samples_hr)))"

definition g_loss_of ::
  "('x, 'y, 'gw, 'dw, 'go, 'do, 'r) collaborators \<Rightarrow> ('gw, 'dw, 'go, 'do, 'r) DownscalingGAN \<Rightarrow>
   'x list \<times> 'y list \<Rightarrow> real" where
  "g_loss_of env self data =
     (case data of (samples_lr, samples_hr) \<Rightarrow>
        loss_fn env
          (tf_zeros (length samples_hr, 1))
          (map2 (\<lambda>l h. [discriminator env (discriminator_weights self) l h])
             samples_lr
             (map2 (generator env (generator_weights self)) samples_lr
                (unstack (noise_of env self data)))))"

definition step_loss ::
  "('x, 'y, 'gw, 'dw, 'go, 'do, 'r) collaborators \<Rightarrow> ('gw, 'dw, 'go, 'do, 'r) DownscalingGAN \<Rightarrow>
   'x list \<times> 'y list \<Rightarrow> real" where
  "step_loss env self data =
     (case selected_branch self of
        Discriminator_branch \<Rightarrow> d_loss_of env self data
      | Generator_branch \<Rightarrow> g_loss_of env self data)"

text \<open>
  The history of a run of \<open>train_steps\<close>: for every call that returned, the branch it ran
  and the loss it computed.
\<close>

fun history ::
  "('x, 'y, 'gw, 'dw, 'go, 'do, 'r) collaborators \<Rightarrow> ('gw, 'dw, 'go, 'do, 'r) DownscalingGAN \<Rightarrow>
   ('x list \<times> 'y list) list \<Rightarrow> (branch \<times> real) list" where
  "history env self [] = []"
| "history env self (data # rest) =
     (case train_step env self data of
        Inl e \<Rightarrow> []
      | Inr (self', logs) \<Rightarrow>
          (selected_branch self, step_loss env self data) # history env self' rest)"

definition losses_of :: "branch \<Rightarrow> (branch \<times> real) list \<Rightarrow> real list" where
  "losses_of b h = map snd (filter (\<lambda>e. fst e = b) h)"

definition mean :: "real list \<Rightarrow> real" where
  "mean xs = (if xs = [] then 0 else sum_list xs / real (length xs))"

text \<open>A batch whose two arrays share the leading batch dimension.\<close>

definition well_formed :: "'x list \<times> 'y list \<Rightarrow> bool" where
  "well_formed data = (length (fst data) = length (snd data))"

subsection \<open>Stub collaborators\<close>

text \<open>
  A small instance for running the trainer: scalar samples and weights, a generator
  that adds the entries of its noise to its input, a linear discriminator, a linear
  loss, forward differences as gradients, plain gradient descent, and a counter as
  random generator. \<open>stub_gan\<close> is constructed with the default noise shape,
  \<open>tiny_gan\<close> with the empty one (one scalar of noise per sample).
\<close>

fun entries :: "tensor \<Rightarrow> real list" where
  "entries (Scalar x) = [x]"
| "entries (Axis ts) = concat (map entries ts)"

definition stub_env :: "(real, real, real, real, nat, nat, nat) collaborators" where
  "stub_env =
     \<lparr>generator = (\<lambda>gw x z. gw + x + sum_list (entries z)),
      discriminator = (\<lambda>dw x y. dw + y - x),
      loss_fn = (\<lambda>labels predictions.
        sum_list (map2 (\<lambda>l p. p - l) (concat labels) (concat predictions))),
      gradient_d = (\<lambda>f w. f (w + 1) - f w),
      gradient_g = (\<lambda>f w. f (w + 1) - f w),
      d_optimizer = (\<lambda>opt g w. (w - g, Suc opt)),
      g_optimizer = (\<lambda>opt g w. (w - g, Suc opt)),
      normal = (\<lambda>mean stddev r. (mean + stddev * real r, Suc r))\<rparr>"

definition stub_gan :: "(real, real, nat, nat, nat) DownscalingGAN" where
  "stub_gan = init 1 1 default_noise_shape 0 0 0"

definition tiny_gan :: "(real, real, nat, nat, nat) DownscalingGAN" where
  "tiny_gan = init 1 1 [] 0 0 0"

text \<open>The stub trainer on the batch \<open>([1], [3])\<close>: its state after one, two and three calls.\<close>

definition stub_batch :: "real list \<times> real list" where
  "stub_batch = ([1], [3])"

definition stub_after_1 :: "(real, real, nat, nat, nat) DownscalingGAN" where
  "stub_after_1 =
     \<lparr>discriminator_weights = - 1, generator_weights = 1, noise_shape = [],
      gen_loss_tracker = \<lparr>total = 0, count = 0\<rparr>,
      disc_loss_tracker = \<lparr>total = 4, count = 1\<rparr>,
      step_number = 1, d_optimizer_state = 1, g_optimizer_state = 0, rng = 1\<rparr>"

definition stub_after_2 :: "(real, real, nat, nat, nat) DownscalingGAN" where
  "stub_after_2 =
     \<lparr>discriminator_weights = - 1, generator_weights = 0, noise_shape = [],
      gen_loss_tracker = \<lparr>total = 1, count = 1\<rparr>,
      disc_loss_tracker = \<lparr>total = 4, count = 1\<rparr>,
      step_number = 2, d_optimizer_state = 1, g_optimizer_state = 1, rng = 2\<rparr>"

definition stub_after_3 :: "(real, real, nat, nat, nat) DownscalingGAN" where
  "stub_after_3 =
     \<lparr>discriminator_weights = - 3, generator_weights = 0, noise_shape = [],
      gen_loss_tracker = \<lparr>total = 1, count = 1\<rparr>,
      disc_loss_tracker = \<lparr>total = 5, count = 2\<rparr>,
      step_number = 3, d_optimizer_state = 2, g_optimizer_state = 1, rng = 3\<rparr>"

text \<open>
  A second stub trainer with the parameters, counter and generator state of \<open>tiny_gan\<close>
  but another tracker and optimizer state, and its state after one call.
\<close>

definition tiny_gan_used :: "(real, real, nat, nat, nat) DownscalingGAN" where
  "tiny_gan_used = tiny_gan\<lparr>disc_loss_tracker := \<lparr>total = 10, count = 2\<rparr>, d_optimizer_state := 7\<rparr>"

definition tiny_gan_used_after_1 :: "(real, real, nat, nat, nat) DownscalingGAN" where
  "tiny_gan_used_after_1 =
     \<lparr>discriminator_weights = - 1, generator_weights = 1, noise_shape = [],
      gen_loss_tracker = \<lparr>total = 0, count = 0\<rparr>,
      disc_loss_tracker = \<lparr>total = 14, count = 3\<rparr>,
      step_number = 1, d_optimizer_state = 8, g_optimizer_state = 0, rng = 1\<rparr>"

text \<open>The stub trainer after two and after three epochs of \<open>fit\<close>, one batch each.\<close>

definition stub_fit_mid :: "(real, real, nat, nat, nat) DownscalingGAN" where
  "stub_fit_mid =
     \<lparr>discriminator_weights = - 1, generator_weights = 0, noise_shape = [],
      gen_loss_tracker = \<lparr>total = 1, count = 1\<rparr>,
      disc_loss_tracker = \<lparr>total = 0, count = 0\<rparr>,
      step_number = 2, d_optimizer_state = 1, g_optimizer_state = 1, rng = 2\<rparr>"

definition stub_fit_end :: "(real, real, nat, nat, nat) DownscalingGAN" where
  "stub_fit_end =
     \<lparr>discriminator_weights = - 3, generator_weights = 0, noise_shape = [],
      gen_loss_tracker = \<lparr>total = 0, count = 0\<rparr>,
      disc_loss_tracker = \<lparr>total = 1, count = 1\<rparr>,
      step_number = 3, d_optimizer_state = 2, g_optimizer_state = 1, rng = 3\<rparr>"

text \<open>The stub trainer with the default noise shape after one and after two calls.\<close>

definition stub_gan_after_1 :: "(real, real, nat, nat, nat) DownscalingGAN" where
  "stub_gan_after_1 =
     \<lparr>discriminator_weights = - 1, generator_weights = 1, noise_shape = [4, 4, 8],
      gen_loss_tracker = \<lparr>total = 0, count = 0\<rparr>,
      disc_loss_tracker = \<lparr>total = 8132, count = 1\<rparr>,
      step_number = 1, d_optimizer_state = 1, g_optimizer_state = 0, rng = 128\<rparr>"

definition stub_gan_after_2 :: "(real, real, nat, nat, nat) DownscalingGAN" where
  "stub_gan_after_2 =
     \<lparr>discriminator_weights = - 1, generator_weights = 0, noise_shape = [4, 4, 8],
      gen_loss_tracker = \<lparr>total = 24512, count = 1\<rparr>,
      disc_loss_tracker = \<lparr>total = 8132, count = 1\<rparr>,
      step_number = 2, d_optimizer_state = 1, g_optimizer_state = 1, rng = 256\<rparr>"

text \<open>
  The stub collaborators with frozen parameters (no optimizer changes the weights), and
  the states of \<open>tiny_gan\<close> and \<open>tiny_gan_used\<close> after one call with them.
\<close>

definition frozen_env :: "(real, real, real, real, nat, nat, nat) collaborators" where
  "frozen_env =
     stub_env\<lparr>d_optimizer := (\<lambda>opt g w. (w, opt)), g_optimizer := (\<lambda>opt g w. (w, opt))\<rparr>"

definition frozen_after_1 :: "(real, real, nat, nat, nat) DownscalingGAN" where
  "frozen_after_1 =
     \<lparr>discriminator_weights = 1, generator_weights = 1, noise_shape = [],
      gen_loss_tracker = \<lparr>total = 0, count = 0\<rparr>,
      disc_loss_tracker = \<lparr>total = 4, count = 1\<rparr>,
      step_number = 1, d_optimizer_state = 0, g_optimizer_state = 0, rng = 1\<rparr>"

definition frozen_used_after_1 :: "(real, real, nat, nat, nat) DownscalingGAN" where
  "frozen_used_after_1 =
     \<lparr>discriminator_weights = 1, generator_weights = 1, noise_shape = [],
      gen_loss_tracker = \<lparr>total = 0, count = 0\<rparr>,
      disc_loss_tracker = \<lparr>total = 14, count = 3\<rparr>,
      step_number = 1, d_optimizer_state = 7, g_optimizer_state = 0, rng = 1\<rparr>"

subsection \<open>Reading a run\<close>

text \<open>The value a returned dictionary holds under a key.\<close>

definition logged ::
  "string \<Rightarrow> error + (('gw, 'dw, 'go, 'do, 'r) DownscalingGAN \<times> (string \<times> real) list) \<Rightarrow>
   real option" where
  "logged key res = (case res of Inl e \<Rightarrow> None | Inr (self', logs) \<Rightarrow> map_of logs key)"

text \<open>The history of a run of \<open>fit\<close>: the histories of its epochs, one after the other.\<close>

fun fit_history ::
  "('x, 'y, 'gw, 'dw, 'go, 'do, 'r) collaborators \<Rightarrow> ('gw, 'dw, 'go, 'do, 'r) DownscalingGAN \<Rightarrow>
   ('x list \<times> 'y list) list list \<Rightarrow> (branch \<times> real) list" where
  "fit_history env self [] = []"
| "fit_history env self (batches # epochs) =
     history env (reset_metrics self) batches @
     (case train_steps env (reset_metrics self) batches of
        Inl e \<Rightarrow> []
      | Inr self' \<Rightarrow> fit_history env self' epochs)"

section \<open>Basic facts\<close>

subsection \<open>The sampler and the parity test\<close>




lemma draw_many_length: "draw_many d n r = (xs, r') \<Longrightarrow> length xs = n"
  by (induction n arbitrary: r xs r') (auto split: prod.splits)

lemma tf_random_normal_Cons:
  "\<exists>zs r'. tf_random_normal d (n # ns) m sd r = (Axis zs, r') \<and> length zs = n"
proof -
  obtain zs r' where e: "draw_many (tf_random_normal d ns m sd) n r = (zs, r')"
    by (cases "draw_many (tf_random_normal d ns m sd) n r")
  from draw_many_length [OF e] e show ?thesis by simp
qed

lemma even_sint32: "even (sint (w :: 32 word)) = even w"
proof -
  have "bit (sint w) 0 = bit w 0" by (simp add: bit_sint_iff)
  then show ?thesis by (simp add: bit_0)
qed

lemma cond_even: "(sint (w :: 32 word) mod 2 = 0) = even w"
  using even_sint32 [of w] by (simp add: even_iff_mod_2_eq_zero)

lemma train_discriminator_wf:
  assumes "length zs = length samples_lr" and "length samples_lr = length samples_hr"
  shows "train_discriminator env self samples_lr samples_hr (length samples_hr) (Axis zs) =
    Inr (self\<lparr>discriminator_weights :=
               fst (d_optimizer env (d_optimizer_state self)
                 (gradient_d env
                    (\<lambda>dw. loss_fn env
                       (tf_ones (length samples_hr, 1) @ tf_zeros (length samples_hr, 1))
                       (map2 (\<lambda>l h. [discriminator env dw l h]) (samples_lr @ samples_lr)
                          (map2 (generator env (generator_weights self)) samples_lr zs @ samples_hr)))
                    (discriminator_weights self))
                 (discriminator_weights self)),
             d_optimizer_state :=
               snd (d_optimizer env (d_optimizer_state self)
                 (gradient_d env
                    (\<lambda>dw. loss_fn env
                       (tf_ones (length samples_hr, 1) @ tf_zeros (length samples_hr, 1))
                       (map2 (\<lambda>l h. [discriminator env dw l h]) (samples_lr @ samples_lr)
                          (map2 (generator env (generator_weights self)) samples_lr zs @ samples_hr)))
                    (discriminator_weights self))
                 (discriminator_weights self)),
             disc_loss_tracker :=
               update_state (disc_loss_tracker self)
                 (loss_fn env
                    (tf_ones (length samples_hr, 1) @ tf_zeros (length samples_hr, 1))
                    (map2 (\<lambda>l h. [discriminator env (discriminator_weights self) l h])
                       (samples_lr @ samples_lr)
                       (map2 (generator env (generator_weights self)) samples_lr zs @ samples_hr)))\<rparr>)"
  using assms
  by (simp add: train_discriminator_def call_generator_def call_discriminator_def call_model_def
      Let_def split: prod.splits)

lemma train_generator_wf:
  assumes "length zs = length samples_lr"
  shows "train_generator env self samples_lr samples_hr (length samples_hr) (Axis zs) =
    Inr (self\<lparr>generator_weights :=
               fst (g_optimizer env (g_optimizer_state self)
                 (gradient_g env
                    (\<lambda>gw. loss_fn env (tf_zeros (length samples_hr, 1))
                       (map2 (\<lambda>l h. [discriminator env (discriminator_weights self) l h]) samples_lr
                          (map2 (generator env gw) samples_lr zs)))
                    (generator_weights self))
                 (generator_weights self)),
             g_optimizer_state :=
               snd (g_optimizer env (g_optimizer_state self)
                 (gradient_g env
                    (\<lambda>gw. loss_fn env (tf_zeros (length samples_hr, 1))
                       (map2 (\<lambda>l h. [discriminator env (discriminator_weights self) l h]) samples_lr
                          (map2 (generator env gw) samples_lr zs)))
                    (generator_weights self))
                 (generator_weights self)),
             gen_loss_tracker :=
               update_state (gen_loss_tracker self)
                 (loss_fn env (tf_zeros (length samples_hr, 1))
                    (map2 (\<lambda>l h. [discriminator env (discriminator_weights self) l h]) samples_lr
                       (map2 (generator env (generator_weights self)) samples_lr zs)))\<rparr>)"
  using assms
  by (simp add: train_generator_def call_generator_def call_discriminator_def call_model_def
      Let_def split: prod.splits)


lemma train_step_discriminator:
  assumes wf: "length samples_lr = length samples_hr"
    and ev: "sint (step_number self) mod 2 = 0"
  shows "\<exists>self'.
    train_step env self (samples_lr, samples_hr) =
      Inr (self', [(''g_loss'', result (gen_loss_tracker self')),
                   (''d_loss'', result (disc_loss_tracker self'))]) \<and>
    generator_weights self' = generator_weights self \<and>
    g_optimizer_state self' = g_optimizer_state self \<and>
    gen_loss_tracker self' = gen_loss_tracker self \<and>
    disc_loss_tracker self' =
      update_state (disc_loss_tracker self) (d_loss_of env self (samples_lr, samples_hr)) \<and>
    discriminator_weights self' =
      fst (d_optimizer env (d_optimizer_state self)
        (gradient_d env
           (\<lambda>dw. d_loss_of env (self\<lparr>discriminator_weights := dw\<rparr>) (samples_lr, samples_hr))
           (discriminator_weights self))
        (discriminator_weights self)) \<and>
    step_number self' = step_number self + 1 \<and>
    noise_shape self' = noise_shape self \<and>
    rng self' =
      snd (tf_random_normal (normal env) (length samples_hr # noise_shape self) 0 1 (rng self))"
proof -
  obtain zs r' where n: "tf_random_normal (normal env) (length samples_hr # noise_shape self) 0 1
      (rng self) = (Axis zs, r')" and l: "length zs = length samples_hr"
    using tf_random_normal_Cons [of "normal env" "length samples_hr" "noise_shape self" 0 1 "rng self"]
    by blast
  have l': "length zs = length samples_lr" using l wf by simp
  show ?thesis
    using ev n wf
    by (simp add: train_step_def train_discriminator_wf [OF l'] d_loss_of_def noise_of_def
        Let_def del: tf_random_normal.simps)
qed

lemma train_step_generator:
  assumes wf: "length samples_lr = length samples_hr"
    and od: "sint (step_number self) mod 2 \<noteq> 0"
  shows "\<exists>self'.
    train_step env self (samples_lr, samples_hr) =
      Inr (self', [(''g_loss'', result (gen_loss_tracker self')),
                   (''d_loss'', result (disc_loss_tracker self'))]) \<and>
    discriminator_weights self' = discriminator_weights self \<and>
    d_optimizer_state self' = d_optimizer_state self \<and>
    disc_loss_tracker self' = disc_loss_tracker self \<and>
    gen_loss_tracker self' =
      update_state (gen_loss_tracker self) (g_loss_of env self (samples_lr, samples_hr)) \<and>
    generator_weights self' =
      fst (g_optimizer env (g_optimizer_state self)
        (gradient_g env
           (\<lambda>gw. g_loss_of env (self\<lparr>generator_weights := gw\<rparr>) (samples_lr, samples_hr))
           (generator_weights self))
        (generator_weights self)) \<and>
    step_number self' = step_number self + 1 \<and>
    noise_shape self' = noise_shape self \<and>
    rng self' =
      snd (tf_random_normal (normal env) (length samples_hr # noise_shape self) 0 1 (rng self))"
proof -
  obtain zs r' where n: "tf_random_normal (normal env) (length samples_hr # noise_shape self) 0 1
      (rng self) = (Axis zs, r')" and l: "length zs = length samples_hr"
    using tf_random_normal_Cons [of "normal env" "length samples_hr" "noise_shape self" 0 1 "rng self"]
    by blast
  have l': "length zs = length samples_lr" using l wf by simp
  show ?thesis
    using od n wf
    by (simp add: train_step_def train_generator_wf [OF l'] g_loss_of_def noise_of_def
        Let_def del: tf_random_normal.simps)
qed


lemma train_step_error:
  assumes "length samples_lr \<noteq> length samples_hr"
  shows "train_step env self (samples_lr, samples_hr) = Inl InvalidArgumentError"
proof -
  obtain zs r' where n: "tf_random_normal (normal env) (length samples_hr # noise_shape self) 0 1
      (rng self) = (Axis zs, r')" and l: "length zs = length samples_hr"
    using tf_random_normal_Cons [of "normal env" "length samples_hr" "noise_shape self" 0 1 "rng self"]
    by blast
  show ?thesis
    using n l assms
    by (simp add: train_step_def train_discriminator_def train_generator_def call_generator_def
        call_model_def Let_def del: tf_random_normal.simps)
qed

lemma train_step_Inr_wf:
  "train_step env self (samples_lr, samples_hr) = Inr res \<Longrightarrow> length samples_lr = length samples_hr"
  using train_step_error [of samples_lr samples_hr env self] by (cases "length samples_lr = length samples_hr") auto

lemma selected_branch_even:
  "(selected_branch self = Discriminator_branch) = even (step_number self)"
  "(selected_branch self = Generator_branch) = odd (step_number self)"
  by (simp_all add: selected_branch_def cond_even)

text \<open>One returning call, whatever the branch.\<close>

lemma train_step_step:
  assumes "train_step env self data = Inr (self', logs)"
  shows "step_number self' = step_number self + 1"
    and "noise_shape self' = noise_shape self"
    and "count (disc_loss_tracker self') =
           count (disc_loss_tracker self) + (if selected_branch self = Discriminator_branch then 1 else 0)"
    and "count (gen_loss_tracker self') =
           count (gen_loss_tracker self) + (if selected_branch self = Generator_branch then 1 else 0)"
    and "total (disc_loss_tracker self') =
           total (disc_loss_tracker self) +
           (if selected_branch self = Discriminator_branch then step_loss env self data else 0)"
    and "total (gen_loss_tracker self') =
           total (gen_loss_tracker self) +
           (if selected_branch self = Generator_branch then step_loss env self data else 0)"
proof -
  obtain samples_lr samples_hr where d: "data = (samples_lr, samples_hr)" by (cases data)
  have wf: "length samples_lr = length samples_hr"
    using assms d train_step_Inr_wf by blast
  show "step_number self' = step_number self + 1"
    and "noise_shape self' = noise_shape self"
    and "count (disc_loss_tracker self') =
           count (disc_loss_tracker self) + (if selected_branch self = Discriminator_branch then 1 else 0)"
    and "count (gen_loss_tracker self') =
           count (gen_loss_tracker self) + (if selected_branch self = Generator_branch then 1 else 0)"
    and "total (disc_loss_tracker self') =
           total (disc_loss_tracker self) +
           (if selected_branch self = Discriminator_branch then step_loss env self data else 0)"
    and "total (gen_loss_tracker self') =
           total (gen_loss_tracker self) +
           (if selected_branch self = Generator_branch then step_loss env self data else 0)"
    using assms d train_step_discriminator [OF wf, of self env] train_step_generator [OF wf, of self env]
    by (cases "sint (step_number self) mod 2 = 0";
        auto simp: selected_branch_def step_loss_def update_state_def)+
qed


lemma train_step_returns:
  assumes "well_formed data"
  shows "\<exists>self' logs. train_step env self data = Inr (self', logs)"
proof -
  obtain samples_lr samples_hr where d: "data = (samples_lr, samples_hr)" by (cases data)
  with assms have wf: "length samples_lr = length samples_hr" by (simp add: well_formed_def)
  show ?thesis
    using d train_step_discriminator [OF wf, of self env] train_step_generator [OF wf, of self env]
    by (cases "sint (step_number self) mod 2 = 0") auto
qed

lemma train_steps_returns:
  "list_all well_formed batches \<Longrightarrow> \<exists>final. train_steps env self batches = Inr final"
proof (induction batches arbitrary: self)
  case Nil
  then show ?case by simp
next
  case (Cons data rest)
  from Cons.prems have "well_formed data" and r: "list_all well_formed rest" by simp_all
  then obtain self' logs where "train_step env self data = Inr (self', logs)"
    using train_step_returns by blast
  with Cons.IH [OF r, of self'] show ?case by simp
qed

lemma history_branches:
  "list_all well_formed batches \<Longrightarrow>
   map fst (history env self batches) =
     map (\<lambda>k. if even k = even (step_number self) then Discriminator_branch else Generator_branch)
       [0..<length batches]"
proof (induction batches arbitrary: self)
  case Nil
  then show ?case by simp
next
  case (Cons data rest)
  from Cons.prems have "well_formed data" and r: "list_all well_formed rest" by simp_all
  then obtain self' logs where t: "train_step env self data = Inr (self', logs)"
    using train_step_returns by blast
  have s: "step_number self' = step_number self + 1" using train_step_step(1) [OF t] .
  have h: "selected_branch self =
      (if even (step_number self) then Discriminator_branch else Generator_branch)"
    by (simp add: selected_branch_def cond_even)
  show ?case
    using Cons.IH [OF r, of self'] t s h
    by (simp add: map_upt_Suc del: upt_Suc)
qed

lemma count_even_upt: "length (filter even [0..<n]) = (n + 1) div 2"
  by (induction n) auto

lemma count_odd_upt: "length (filter odd [0..<n]) = n div 2"
  by (induction n) auto

lemma train_steps_trackers:
  "train_steps env self batches = Inr final \<Longrightarrow>
   count (disc_loss_tracker final) =
     count (disc_loss_tracker self) +
     length (losses_of Discriminator_branch (history env self batches)) \<and>
   total (disc_loss_tracker final) =
     total (disc_loss_tracker self) +
     sum_list (losses_of Discriminator_branch (history env self batches)) \<and>
   count (gen_loss_tracker final) =
     count (gen_loss_tracker self) +
     length (losses_of Generator_branch (history env self batches)) \<and>
   total (gen_loss_tracker final) =
     total (gen_loss_tracker self) +
     sum_list (losses_of Generator_branch (history env self batches)) \<and>
   noise_shape final = noise_shape self \<and>
   length (history env self batches) = length batches"
proof (induction batches arbitrary: self)
  case Nil
  then show ?case by (simp add: losses_of_def)
next
  case (Cons data rest)
  from Cons.prems obtain self' logs where t: "train_step env self data = Inr (self', logs)"
    and r: "train_steps env self' rest = Inr final"
    by (auto split: sum.splits)
  note st = train_step_step [OF t]
  show ?case
    using Cons.IH [OF r] t st
    by (cases "selected_branch self") (simp_all add: losses_of_def)
qed


subsection \<open>A returning call, branch by branch\<close>

lemma train_step_Inr_discriminator:
  assumes "train_step env self data = Inr (self', logs)"
    and "selected_branch self = Discriminator_branch"
  shows "generator_weights self' = generator_weights self"
    and "g_optimizer_state self' = g_optimizer_state self"
    and "gen_loss_tracker self' = gen_loss_tracker self"
    and "disc_loss_tracker self' = update_state (disc_loss_tracker self) (d_loss_of env self data)"
    and "discriminator_weights self' =
      fst (d_optimizer env (d_optimizer_state self)
        (gradient_d env (\<lambda>dw. d_loss_of env (self\<lparr>discriminator_weights := dw\<rparr>) data)
           (discriminator_weights self))
        (discriminator_weights self))"
    and "rng self' =
      snd (tf_random_normal (normal env) (length (snd data) # noise_shape self) 0 1 (rng self))"
    and "logs = [(''g_loss'', result (gen_loss_tracker self')),
                 (''d_loss'', result (disc_loss_tracker self'))]"
proof -
  obtain samples_lr samples_hr where d: "data = (samples_lr, samples_hr)" by (cases data)
  have wf: "length samples_lr = length samples_hr"
    using assms(1) d train_step_Inr_wf by blast
  have ev: "sint (step_number self) mod 2 = 0"
    using assms(2) by (simp add: selected_branch_def split: if_splits)
  show "generator_weights self' = generator_weights self"
    and "g_optimizer_state self' = g_optimizer_state self"
    and "gen_loss_tracker self' = gen_loss_tracker self"
    and "disc_loss_tracker self' = update_state (disc_loss_tracker self) (d_loss_of env self data)"
    and "discriminator_weights self' =
      fst (d_optimizer env (d_optimizer_state self)
        (gradient_d env (\<lambda>dw. d_loss_of env (self\<lparr>discriminator_weights := dw\<rparr>) data)
           (discriminator_weights self))
        (discriminator_weights self))"
    and "rng self' =
      snd (tf_random_normal (normal env) (length (snd data) # noise_shape self) 0 1 (rng self))"
    and "logs = [(''g_loss'', result (gen_loss_tracker self')),
                 (''d_loss'', result (disc_loss_tracker self'))]"
    using assms(1) d train_step_discriminator [OF wf ev, of env]
    by auto
qed

lemma train_step_Inr_generator:
  assumes "train_step env self data = Inr (self', logs)"
    and "selected_branch self = Generator_branch"
  shows "discriminator_weights self' = discriminator_weights self"
    and "d_optimizer_state self' = d_optimizer_state self"
    and "disc_loss_tracker self' = disc_loss_tracker self"
    and "gen_loss_tracker self' = update_state (gen_loss_tracker self) (g_loss_of env self data)"
    and "generator_weights self' =
      fst (g_optimizer env (g_optimizer_state self)
        (gradient_g env (\<lambda>gw. g_loss_of env (self\<lparr>generator_weights := gw\<rparr>) data)
           (generator_weights self))
        (generator_weights self))"
    and "rng self' =
      snd (tf_random_normal (normal env) (length (snd data) # noise_shape self) 0 1 (rng self))"
    and "logs = [(''g_loss'', result (gen_loss_tracker self')),
                 (''d_loss'', result (disc_loss_tracker self'))]"
proof -
  obtain samples_lr samples_hr where d: "data = (samples_lr, samples_hr)" by (cases data)
  have wf: "length samples_lr = length samples_hr"
    using assms(1) d train_step_Inr_wf by blast
  have od: "sint (step_number self) mod 2 \<noteq> 0"
    using assms(2) by (simp add: selected_branch_def split: if_splits)
  show "discriminator_weights self' = discriminator_weights self"
    and "d_optimizer_state self' = d_optimizer_state self"
    and "disc_loss_tracker self' = disc_loss_tracker self"
    and "gen_loss_tracker self' = update_state (gen_loss_tracker self) (g_loss_of env self data)"
    and "generator_weights self' =
      fst (g_optimizer env (g_optimizer_state self)
        (gradient_g env (\<lambda>gw. g_loss_of env (self\<lparr>generator_weights := gw\<rparr>) data)
           (generator_weights self))
        (generator_weights self))"
    and "rng self' =
      snd (tf_random_normal (normal env) (length (snd data) # noise_shape self) 0 1 (rng self))"
    and "logs = [(''g_loss'', result (gen_loss_tracker self')),
                 (''d_loss'', result (disc_loss_tracker self'))]"
    using assms(1) d train_step_generator [OF wf od, of env]
    by auto
qed


lemma noise_of_rows:
  "\<exists>zs. noise_of env self (samples_lr, samples_hr) = Axis zs \<and> length zs = length samples_hr"
  using tf_random_normal_Cons [of "normal env" "length samples_hr" "noise_shape self" 0 1 "rng self"]
  by (auto simp add: noise_of_def simp del: tf_random_normal.simps)

lemma length_unstack_noise:
  "length (unstack (noise_of env self (samples_lr, samples_hr))) = length samples_hr"
  using noise_of_rows [of env self samples_lr samples_hr] by auto


subsection \<open>The stub run\<close>

lemmas stub_eval = train_step_def train_discriminator_def train_generator_def call_generator_def
  call_discriminator_def call_model_def stub_env_def init_def Mean_new_def update_state_def
  result_def div_no_nan_def tf_ones_def tf_zeros_def Let_def stub_batch_def

lemma stub_call_1:
  "train_step stub_env tiny_gan stub_batch = Inr (stub_after_1, [(''g_loss'', 0), (''d_loss'', 4)])"
  by (simp add: stub_eval tiny_gan_def stub_after_1_def)

lemma stub_call_2:
  "train_step stub_env stub_after_1 stub_batch = Inr (stub_after_2, [(''g_loss'', 1), (''d_loss'', 4)])"
  by (simp add: stub_eval stub_after_1_def stub_after_2_def)

lemma stub_call_3:
  "train_step stub_env stub_after_2 stub_batch =
     Inr (stub_after_3, [(''g_loss'', 1), (''d_loss'', 5 / 2)])"
  by (simp add: stub_eval stub_after_2_def stub_after_3_def)

lemma stub_branches:
  "selected_branch tiny_gan = Discriminator_branch"
  "selected_branch stub_after_1 = Generator_branch"
  "selected_branch stub_after_2 = Discriminator_branch"
  by (simp_all add: selected_branch_def tiny_gan_def init_def stub_after_1_def stub_after_2_def)

lemma stub_noise_1: "noise_of stub_env tiny_gan ([1], [3]) = Axis [Scalar 0]"
  by (simp add: noise_of_def stub_env_def tiny_gan_def init_def)


lemma stub_noise_2: "noise_of stub_env stub_after_1 ([1], [3]) = Axis [Scalar 1]"
  by (simp add: noise_of_def stub_env_def stub_after_1_def)


lemma stub_call_used:
  "train_step stub_env tiny_gan_used stub_batch =
     Inr (tiny_gan_used_after_1, [(''g_loss'', 0), (''d_loss'', 14 / 3)])"
  by (simp add: stub_eval tiny_gan_def tiny_gan_used_def tiny_gan_used_after_1_def)

lemmas stub_hist = step_loss_def selected_branch_def d_loss_of_def g_loss_of_def noise_of_def
  reset_metrics_def reset_metric_def metrics_def reset_state_def losses_of_def mean_def

lemma stub_fit:
  "fit stub_env tiny_gan [[stub_batch], [stub_batch], [stub_batch]] = Inr stub_fit_end"
  by (simp add: stub_eval stub_hist tiny_gan_def stub_fit_end_def)

lemma stub_fit_history:
  "fit_history stub_env tiny_gan [[stub_batch], [stub_batch], [stub_batch]] =
     [(Discriminator_branch, 4), (Generator_branch, 1), (Discriminator_branch, 1)]"
  by (simp add: stub_eval stub_hist tiny_gan_def)

lemma stub_fit_two:
  "fit stub_env tiny_gan [[stub_batch], [stub_batch]] = Inr stub_fit_mid"
  by (simp add: stub_eval stub_hist tiny_gan_def stub_fit_mid_def)

lemma stub_gan_call_1:
  "train_step stub_env stub_gan stub_batch =
     Inr (stub_gan_after_1, [(''g_loss'', 0), (''d_loss'', 8132)])"
  by (simp add: stub_eval stub_gan_def default_noise_shape_def stub_gan_after_1_def
      eval_nat_numeral)

lemma stub_gan_call_2:
  "train_step stub_env stub_gan_after_1 stub_batch =
     Inr (stub_gan_after_2, [(''g_loss'', 24512), (''d_loss'', 8132)])"
  by (simp add: stub_eval stub_gan_after_1_def stub_gan_after_2_def eval_nat_numeral)

lemma stub_normal_funpow:
  "((\<lambda>s. snd (normal stub_env 0 1 s)) ^^ k) r = r + k"
  by (induction k) (simp_all add: stub_env_def)

lemma frozen_call:
  "train_step frozen_env tiny_gan stub_batch =
     Inr (frozen_after_1, [(''g_loss'', 0), (''d_loss'', 4)])"
  by (simp add: stub_eval frozen_env_def tiny_gan_def frozen_after_1_def)

lemma frozen_call_used:
  "train_step frozen_env tiny_gan_used stub_batch =
     Inr (frozen_used_after_1, [(''g_loss'', 0), (''d_loss'', 14 / 3)])"
  by (simp add: stub_eval frozen_env_def tiny_gan_def tiny_gan_used_def frozen_used_after_1_def)

subsection \<open>Shapes, means and the driver\<close>

lemma draw_many_list_all:
  "(\<And>r. P (fst (d r))) \<Longrightarrow> draw_many d n r = (xs, r') \<Longrightarrow> list_all P xs"
proof (induction n arbitrary: r xs r')
  case 0
  then show ?case by simp
next
  case (Suc n)
  obtain y r1 where d: "d r = (y, r1)" by (cases "d r")
  obtain ys r2 where m: "draw_many d n r1 = (ys, r2)" by (cases "draw_many d n r1")
  have "P y" using Suc.prems(1) [of r] d by simp
  moreover have "list_all P ys" using Suc.IH [OF Suc.prems(1) m] .
  ultimately show ?case using Suc.prems(2) d m by auto
qed

lemma tf_random_normal_has_shape:
  "has_shape sh (fst (tf_random_normal d sh m sd r))"
proof (induction sh arbitrary: r)
  case Nil
  then show ?case by (simp split: prod.splits)
next
  case (Cons n ns)
  obtain ts r1 where e: "draw_many (tf_random_normal d ns m sd) n r = (ts, r1)"
    by (cases "draw_many (tf_random_normal d ns m sd) n r")
  have "length ts = n" using draw_many_length [OF e] .
  moreover have "list_all (has_shape ns) ts"
    by (rule draw_many_list_all [OF _ e]) (rule Cons.IH)
  ultimately show ?case using e by simp
qed

lemma step_loss_cong:
  assumes "rng s1 = rng s2" and "generator_weights s1 = generator_weights s2"
    and "discriminator_weights s1 = discriminator_weights s2"
    and "step_number s1 = step_number s2" and "noise_shape s1 = noise_shape s2"
  shows "step_loss env s1 data = step_loss env s2 data"
    and "selected_branch s1 = selected_branch s2"
    and "noise_of env s1 data = noise_of env s2 data"
    and "d_loss_of env s1 data = d_loss_of env s2 data"
    and "g_loss_of env s1 data = g_loss_of env s2 data"
  using assms
  by (simp_all add: step_loss_def selected_branch_def d_loss_of_def g_loss_of_def noise_of_def
      del: tf_random_normal.simps split: prod.splits)

lemma result_empty: "count m = 0 \<Longrightarrow> result m = 0"
  by (simp add: result_def div_no_nan_def)

lemma result_mean:
  "total m = sum_list xs \<Longrightarrow> count m = length xs \<Longrightarrow> result m = mean xs"
  by (cases xs) (simp_all add: result_def div_no_nan_def mean_def)

lemma reset_metrics_trackers:
  "total (disc_loss_tracker (reset_metrics s)) = 0"
  "count (disc_loss_tracker (reset_metrics s)) = 0"
  "total (gen_loss_tracker (reset_metrics s)) = 0"
  "count (gen_loss_tracker (reset_metrics s)) = 0"
  by (simp_all add: reset_metrics_def reset_metric_def metrics_def reset_state_def)

lemma reset_metrics_frame:
  "discriminator_weights (reset_metrics s) = discriminator_weights s"
  "generator_weights (reset_metrics s) = generator_weights s"
  "step_number (reset_metrics s) = step_number s"
  "noise_shape (reset_metrics s) = noise_shape s"
  "rng (reset_metrics s) = rng s"
  by (simp_all add: reset_metrics_def reset_metric_def metrics_def)

lemma fit_snoc:
  "fit env self (epochs @ [batches]) =
     (case fit env self epochs of
        Inl e \<Rightarrow> Inl e
      | Inr mid \<Rightarrow> train_steps env (reset_metrics mid) batches)"
proof (induction epochs arbitrary: self)
  case Nil
  then show ?case by (simp split: sum.splits)
next
  case (Cons a epochs)
  then show ?case by (simp split: sum.splits)
qed

lemma train_steps_means:
  assumes "train_steps env s batches = Inr final"
    and "total (disc_loss_tracker s) = 0" and "count (disc_loss_tracker s) = 0"
    and "total (gen_loss_tracker s) = 0" and "count (gen_loss_tracker s) = 0"
  shows "result (disc_loss_tracker final) =
           mean (losses_of Discriminator_branch (history env s batches))"
    and "result (gen_loss_tracker final) =
           mean (losses_of Generator_branch (history env s batches))"
  using train_steps_trackers [OF assms(1)] assms(2-5)
  by (simp_all add: result_mean)

subsection \<open>The entries of the noise are successive draws of the sampler\<close>

lemma draw_many_funpow:
  "draw_many d n r =
     (map (\<lambda>k. fst (d (((\<lambda>s. snd (d s)) ^^ k) r))) [0..<n], ((\<lambda>s. snd (d s)) ^^ n) r)"
proof (induction n arbitrary: r)
  case 0
  then show ?case by simp
next
  case (Suc n)
  obtain x r1 where d: "d r = (x, r1)" by (cases "d r")
  have g: "\<And>k. ((\<lambda>s. snd (d s)) ^^ Suc k) r = ((\<lambda>s. snd (d s)) ^^ k) r1"
    using d by (simp add: funpow_Suc_right del: funpow.simps)
  show ?case
    using Suc.IH [of r1] d
    by (simp add: map_upt_Suc g del: upt_Suc funpow.simps)
qed

lemma draw_many_add:
  "draw_many d (a + b) r =
     (case draw_many d a r of (xs, r1) \<Rightarrow>
        (case draw_many d b r1 of (ys, r2) \<Rightarrow> (xs @ ys, r2)))"
  by (induction a arbitrary: r) (auto split: prod.splits)

lemma draw_many_blocks:
  assumes "\<And>s. entries (fst (t s)) = fst (draw_many e p s)"
    and "\<And>s. snd (t s) = snd (draw_many e p s)"
  shows "concat (map entries (fst (draw_many t n r))) = fst (draw_many e (n * p) r) \<and>
         snd (draw_many t n r) = snd (draw_many e (n * p) r)"
proof (induction n arbitrary: r)
  case 0
  then show ?case by simp
next
  case (Suc n)
  obtain x r1 where t: "t r = (x, r1)" by (cases "t r")
  obtain xs r2 where m: "draw_many t n r1 = (xs, r2)" by (cases "draw_many t n r1")
  obtain ys s1 where e: "draw_many e p r = (ys, s1)" by (cases "draw_many e p r")
  have a: "entries x = ys" "r1 = s1" using assms(1) [of r] assms(2) [of r] t e by simp_all
  show ?case
    using Suc.IH [of r1] t m e a
    by (simp add: draw_many_add split: prod.splits)
qed

lemma tf_random_normal_entries:
  "entries (fst (tf_random_normal d sh m sd r)) = fst (draw_many (d m sd) (prod_list sh) r) \<and>
   snd (tf_random_normal d sh m sd r) = snd (draw_many (d m sd) (prod_list sh) r)"
proof (induction sh arbitrary: r)
  case Nil
  then show ?case by (simp split: prod.splits)
next
  case (Cons n ns)
  have b: "concat (map entries (fst (draw_many (tf_random_normal d ns m sd) n r))) =
             fst (draw_many (d m sd) (n * prod_list ns) r) \<and>
           snd (draw_many (tf_random_normal d ns m sd) n r) =
             snd (draw_many (d m sd) (n * prod_list ns) r)"
    by (rule draw_many_blocks) (simp_all add: Cons.IH)
  obtain ts r1 where e: "draw_many (tf_random_normal d ns m sd) n r = (ts, r1)"
    by (cases "draw_many (tf_random_normal d ns m sd) n r")
  show ?case using b e by simp
qed

lemma tf_random_normal_draws:
  "entries (fst (tf_random_normal d sh m sd r)) =
     map (\<lambda>k. fst (d m sd (((\<lambda>s. snd (d m sd s)) ^^ k) r))) [0..<prod_list sh]"
  "snd (tf_random_normal d sh m sd r) = ((\<lambda>s. snd (d m sd s)) ^^ prod_list sh) r"
  using tf_random_normal_entries [of d sh m sd r]
  by (simp_all add: draw_many_funpow)

lemma map_real_shift: "map (\<lambda>k. real (n + k)) [0..<m] = map real [n..<n + m]"
  by (induction m) simp_all

section \<open>The alternation of the two branches\<close>

text \<open>
  Claim C1. For every sequence of \<open>N\<close> calls of \<open>train_step\<close> (on batches whose two
  arrays have the same batch size) on a freshly constructed trainer, every call returns,
  the call number \<open>k\<close> (counted from 0) runs the discriminator branch when \<open>k\<close> is even
  and the generator branch when \<open>k\<close> is odd, so the first call runs the discriminator
  branch, no two consecutive calls run the same branch, \<open>(N + 1) div 2\<close> calls (the
  ceiling of \<open>N / 2\<close>) run the discriminator branch and \<open>N div 2\<close> the generator branch;
  the two loss trackers have recorded as many values. The 32-bit counter wraps around
  without breaking the alternation.
\<close>

theorem train_step_alternates:
  fixes env :: "('x, 'y, 'gw, 'dw, 'go, 'do, 'r) collaborators"
    and dw :: 'dw and gw :: 'gw and shape :: "nat list" and d_opt :: 'do and g_opt :: 'go
    and seed :: 'r
  assumes "list_all well_formed batches"
  defines "gan \<equiv> init dw gw shape d_opt g_opt seed"
  defines "branches \<equiv> map fst (history env gan batches)"
  shows "\<exists>final. train_steps env gan batches = Inr final \<and>
    branches =
      map (\<lambda>k. if even k then Discriminator_branch else Generator_branch) [0..<length batches] \<and>
    (batches \<noteq> [] \<longrightarrow> branches ! 0 = Discriminator_branch) \<and>
    length (filter (\<lambda>b. b = Discriminator_branch) branches) = (length batches + 1) div 2 \<and>
    length (filter (\<lambda>b. b = Generator_branch) branches) = length batches div 2 \<and>
    (\<forall>k. Suc k < length batches \<longrightarrow> branches ! k \<noteq> branches ! Suc k) \<and>
    count (disc_loss_tracker final) = (length batches + 1) div 2 \<and>
    count (gen_loss_tracker final) = length batches div 2"
proof -
  obtain final where f: "train_steps env gan batches = Inr final"
    using train_steps_returns [OF assms(1)] by blast
  have b: "branches =
      map (\<lambda>k. if even k then Discriminator_branch else Generator_branch) [0..<length batches]"
    unfolding branches_def using history_branches [OF assms(1), of env gan]
    by (simp add: gan_def init_def)
  have d: "length (filter (\<lambda>b. b = Discriminator_branch) branches) = (length batches + 1) div 2"
    using count_even_upt [of "length batches"] by (simp add: b filter_map comp_def)
  have g: "length (filter (\<lambda>b. b = Generator_branch) branches) = length batches div 2"
    using count_odd_upt [of "length batches"] by (simp add: b filter_map comp_def)
  have a: "\<forall>k. Suc k < length batches \<longrightarrow> branches ! k \<noteq> branches ! Suc k"
    by (simp add: b)
  have h: "batches \<noteq> [] \<longrightarrow> branches ! 0 = Discriminator_branch"
    by (simp add: b)
  have l: "losses_of Discriminator_branch (history env gan batches) =
             map snd (filter (\<lambda>e. fst e = Discriminator_branch) (history env gan batches))"
    "losses_of Generator_branch (history env gan batches) =
             map snd (filter (\<lambda>e. fst e = Generator_branch) (history env gan batches))"
    by (simp_all add: losses_of_def)
  have fm: "\<And>c. length (filter (\<lambda>e. fst e = c) (history env gan batches)) =
                 length (filter (\<lambda>b. b = c) branches)"
    by (simp add: branches_def filter_map comp_def)
  have z: "count (disc_loss_tracker gan) = 0" "count (gen_loss_tracker gan) = 0"
    by (simp_all add: gan_def init_def Mean_new_def)
  have c: "count (disc_loss_tracker final) = (length batches + 1) div 2"
    "count (gen_loss_tracker final) = length batches div 2"
    using train_steps_trackers [OF f] d g z
    by (simp_all add: l fm)
  show ?thesis using f b h d g a c by blast
qed

theorem train_step_alternates_witness:
  "list_all well_formed [([1::real], [3::real]), ([1, 2], [3, 4]), ([1], [3])] \<and>
   map fst (history stub_env tiny_gan [([1], [3]), ([1, 2], [3, 4]), ([1], [3])]) =
     [Discriminator_branch, Generator_branch, Discriminator_branch] \<and>
   length (filter (\<lambda>b. b = Discriminator_branch)
     (map fst (history stub_env tiny_gan [([1], [3]), ([1, 2], [3, 4]), ([1], [3])]))) = 2 \<and>
   length (filter (\<lambda>b. b = Generator_branch)
     (map fst (history stub_env tiny_gan [([1], [3]), ([1, 2], [3, 4]), ([1], [3])]))) = 1"
proof -
  have w: "list_all well_formed [([1::real], [3::real]), ([1, 2], [3, 4]), ([1], [3])]"
    by (simp add: well_formed_def)
  have u: "[0..<3] = [0, 1, 2]" by (simp add: upt_rec)
  show ?thesis
    using w train_step_alternates [OF w, of stub_env 1 1 "[]" 0 0 0]
    by (auto simp add: tiny_gan_def u)
qed

section \<open>Which state a call changes\<close>

text \<open>
  Claim C2. A call of \<open>train_step\<close> that returns changes the parameters of one network
  only: on the discriminator branch the generator weights are the ones before the call
  and the discriminator weights are the result of one step of the discriminator's
  optimizer; on the generator branch the discriminator weights are the ones before the
  call, although the discriminator is called on the tape, and the generator weights are
  the result of one step of the generator's optimizer.
\<close>

theorem train_step_updates_one_network:
  assumes "train_step env self data = Inr (self', logs)"
  shows "(selected_branch self = Discriminator_branch \<longrightarrow>
            generator_weights self' = generator_weights self \<and>
            discriminator_weights self' =
              fst (d_optimizer env (d_optimizer_state self)
                (gradient_d env (\<lambda>dw. d_loss_of env (self\<lparr>discriminator_weights := dw\<rparr>) data)
                   (discriminator_weights self))
                (discriminator_weights self))) \<and>
         (selected_branch self = Generator_branch \<longrightarrow>
            discriminator_weights self' = discriminator_weights self \<and>
            generator_weights self' =
              fst (g_optimizer env (g_optimizer_state self)
                (gradient_g env (\<lambda>gw. g_loss_of env (self\<lparr>generator_weights := gw\<rparr>) data)
                   (generator_weights self))
                (generator_weights self)))"
  using train_step_Inr_discriminator(1,5) [OF assms] train_step_Inr_generator(1,5) [OF assms]
  by blast

theorem train_step_updates_one_network_witness:
  "train_step stub_env tiny_gan stub_batch = Inr (stub_after_1, [(''g_loss'', 0), (''d_loss'', 4)]) \<and>
   selected_branch tiny_gan = Discriminator_branch \<and>
   generator_weights stub_after_1 = generator_weights tiny_gan \<and>
   discriminator_weights stub_after_1 \<noteq> discriminator_weights tiny_gan \<and>
   train_step stub_env stub_after_1 stub_batch = Inr (stub_after_2, [(''g_loss'', 1), (''d_loss'', 4)]) \<and>
   selected_branch stub_after_1 = Generator_branch \<and>
   discriminator_weights stub_after_2 = discriminator_weights stub_after_1 \<and>
   generator_weights stub_after_2 \<noteq> generator_weights stub_after_1"
  using train_step_updates_one_network [OF stub_call_1] train_step_updates_one_network [OF stub_call_2]
    stub_call_1 stub_call_2 stub_branches
  by (simp add: tiny_gan_def init_def stub_after_1_def stub_after_2_def)

section \<open>The two branches\<close>

text \<open>
  Claim C3. On the discriminator branch with batch size \<open>B\<close>, the high-resolution batch
  given to the discriminator is the \<open>B\<close> generated samples followed by the \<open>B\<close> real
  samples (size \<open>2 * B\<close>), the low-resolution batch is the input batch twice, and the
  label rows are \<open>[1]\<close> on the generated half and \<open>[0]\<close> on the real half; the loss
  recorded and the gradient applied are those of this batch and these labels.
\<close>

theorem discriminator_branch_batch:
  fixes env :: "('x, 'y, 'gw, 'dw, 'go, 'do, 'r) collaborators"
    and self :: "('gw, 'dw, 'go, 'do, 'r) DownscalingGAN"
    and samples_lr :: "'x list" and samples_hr :: "'y list" and B :: nat
  assumes "selected_branch self = Discriminator_branch"
    and "length samples_lr = B" and "length samples_hr = B"
  defines "samples_gen \<equiv> map2 (generator env (generator_weights self)) samples_lr
                            (unstack (noise_of env self (samples_lr, samples_hr)))"
  defines "combined_samples_hr \<equiv> samples_gen @ samples_hr"
  defines "combined_samples_lr \<equiv> samples_lr @ samples_lr"
  defines "labels \<equiv> replicate B [1] @ replicate B [0::real]"
  shows "\<exists>self' logs.
    train_step env self (samples_lr, samples_hr) = Inr (self', logs) \<and>
    length samples_gen = B \<and>
    length combined_samples_hr = 2 * B \<and>
    take B combined_samples_hr = samples_gen \<and>
    drop B combined_samples_hr = samples_hr \<and>
    length combined_samples_lr = 2 * B \<and>
    take B combined_samples_lr = samples_lr \<and>
    drop B combined_samples_lr = samples_lr \<and>
    length labels = 2 * B \<and>
    (\<forall>i. i < B \<longrightarrow> labels ! i = [1]) \<and>
    (\<forall>i. B \<le> i \<and> i < 2 * B \<longrightarrow> labels ! i = [0]) \<and>
    disc_loss_tracker self' =
      update_state (disc_loss_tracker self)
        (loss_fn env labels
           (map2 (\<lambda>l h. [discriminator env (discriminator_weights self) l h])
              combined_samples_lr combined_samples_hr)) \<and>
    discriminator_weights self' =
      fst (d_optimizer env (d_optimizer_state self)
        (gradient_d env
           (\<lambda>dw. loss_fn env labels
              (map2 (\<lambda>l h. [discriminator env dw l h]) combined_samples_lr combined_samples_hr))
           (discriminator_weights self))
        (discriminator_weights self))"
proof -
  have wf: "length samples_lr = length samples_hr" using assms(2,3) by simp
  have ev: "sint (step_number self) mod 2 = 0"
    using assms(1) by (simp add: selected_branch_def split: if_splits)
  obtain self' logs where t: "train_step env self (samples_lr, samples_hr) = Inr (self', logs)"
    using train_step_discriminator [OF wf ev, of env] by blast
  have g: "length samples_gen = B"
    using length_unstack_noise [of env self samples_lr samples_hr] assms(2,3)
    by (simp add: samples_gen_def)
  have lb: "tf_ones (length samples_hr, 1) @ tf_zeros (length samples_hr, 1) = labels"
    using assms(3) by (simp add: labels_def tf_ones_def tf_zeros_def)
  have l1: "\<forall>i. i < B \<longrightarrow> labels ! i = [1]"
    by (simp add: labels_def nth_append)
  have l0: "\<forall>i. B \<le> i \<and> i < 2 * B \<longrightarrow> labels ! i = [0]"
    by (auto simp add: labels_def nth_append)
  have tr: "disc_loss_tracker self' =
      update_state (disc_loss_tracker self)
        (loss_fn env labels
           (map2 (\<lambda>l h. [discriminator env (discriminator_weights self) l h])
              combined_samples_lr combined_samples_hr))"
    using train_step_Inr_discriminator(4) [OF t assms(1)] lb
    by (simp add: d_loss_of_def combined_samples_lr_def combined_samples_hr_def samples_gen_def)
  have nw: "\<And>dw. noise_of env (self\<lparr>discriminator_weights := dw\<rparr>) (samples_lr, samples_hr) =
                  noise_of env self (samples_lr, samples_hr)"
    by (simp add: noise_of_def)
  have w: "discriminator_weights self' =
      fst (d_optimizer env (d_optimizer_state self)
        (gradient_d env
           (\<lambda>dw. loss_fn env labels
              (map2 (\<lambda>l h. [discriminator env dw l h]) combined_samples_lr combined_samples_hr))
           (discriminator_weights self))
        (discriminator_weights self))"
    using train_step_Inr_discriminator(5) [OF t assms(1)] lb
    by (simp add: d_loss_of_def nw combined_samples_lr_def combined_samples_hr_def samples_gen_def)
  show ?thesis
    using t g l1 l0 tr w assms(2,3)
    by (simp add: combined_samples_hr_def combined_samples_lr_def labels_def)
qed

theorem discriminator_branch_batch_witness:
  "selected_branch tiny_gan = Discriminator_branch \<and>
   length [1::real] = 1 \<and> length [3::real] = 1 \<and>
   train_step stub_env tiny_gan ([1], [3]) = Inr (stub_after_1, [(''g_loss'', 0), (''d_loss'', 4)]) \<and>
   map2 (generator stub_env (generator_weights tiny_gan)) [1]
     (unstack (noise_of stub_env tiny_gan ([1], [3]))) @ [3] = [2, 3] \<and>
   disc_loss_tracker stub_after_1 =
     update_state (disc_loss_tracker tiny_gan)
       (loss_fn stub_env [[1], [0]]
          (map2 (\<lambda>l h. [discriminator stub_env (discriminator_weights tiny_gan) l h]) [1, 1] [2, 3]))"
proof -
  have b: "selected_branch tiny_gan = Discriminator_branch" by (rule stub_branches(1))
  have g: "map2 (generator stub_env (generator_weights tiny_gan)) [1]
      (unstack (noise_of stub_env tiny_gan ([1], [3]))) = [2]"
    by (simp add: stub_noise_1) (simp add: stub_env_def tiny_gan_def init_def)
  have c: "train_step stub_env tiny_gan ([1], [3]) =
      Inr (stub_after_1, [(''g_loss'', 0), (''d_loss'', 4)])"
    using stub_call_1 by (simp add: stub_batch_def)
  show ?thesis
    using discriminator_branch_batch [where env = stub_env and self = tiny_gan
        and samples_lr = "[1]" and samples_hr = "[3]" and B = 1, OF b]
      b c g
    by simp
qed


text \<open>
  Claim C4. On the generator branch with batch size \<open>B\<close>, the misleading labels are \<open>B\<close>
  rows \<open>[0]\<close>; the generator's loss is the compiled loss (the binary cross-entropy on
  logits in the notebook) between the discriminator's predictions on the low-resolution
  samples paired with the samples generated in this call and these labels; the gradient
  is that of this loss as a function of the generator weights, applied by the
  generator's optimizer, and the discriminator's weights and optimizer are untouched.
\<close>

theorem generator_branch_loss:
  fixes env :: "('x, 'y, 'gw, 'dw, 'go, 'do, 'r) collaborators"
    and self :: "('gw, 'dw, 'go, 'do, 'r) DownscalingGAN"
    and samples_lr :: "'x list" and samples_hr :: "'y list" and B :: nat
  assumes "selected_branch self = Generator_branch"
    and "length samples_lr = B" and "length samples_hr = B"
  defines "noise \<equiv> unstack (noise_of env self (samples_lr, samples_hr))"
  defines "misleading_labels \<equiv> replicate B [0::real]"
  shows "\<exists>self' logs.
    train_step env self (samples_lr, samples_hr) = Inr (self', logs) \<and>
    length misleading_labels = B \<and>
    (\<forall>i. i < B \<longrightarrow> misleading_labels ! i = [0]) \<and>
    length noise = B \<and>
    length (map2 (generator env (generator_weights self)) samples_lr noise) = B \<and>
    gen_loss_tracker self' =
      update_state (gen_loss_tracker self)
        (loss_fn env misleading_labels
           (map2 (\<lambda>l h. [discriminator env (discriminator_weights self) l h]) samples_lr
              (map2 (generator env (generator_weights self)) samples_lr noise))) \<and>
    generator_weights self' =
      fst (g_optimizer env (g_optimizer_state self)
        (gradient_g env
           (\<lambda>gw. loss_fn env misleading_labels
              (map2 (\<lambda>l h. [discriminator env (discriminator_weights self) l h]) samples_lr
                 (map2 (generator env gw) samples_lr noise)))
           (generator_weights self))
        (generator_weights self)) \<and>
    discriminator_weights self' = discriminator_weights self \<and>
    d_optimizer_state self' = d_optimizer_state self"
proof -
  have wf: "length samples_lr = length samples_hr" using assms(2,3) by simp
  have od: "sint (step_number self) mod 2 \<noteq> 0"
    using assms(1) by (simp add: selected_branch_def split: if_splits)
  obtain self' logs where t: "train_step env self (samples_lr, samples_hr) = Inr (self', logs)"
    using train_step_generator [OF wf od, of env] by blast
  have n: "length noise = B"
    using length_unstack_noise [of env self samples_lr samples_hr] assms(3)
    by (simp add: noise_def)
  have lb: "tf_zeros (length samples_hr, 1) = misleading_labels"
    using assms(3) by (simp add: misleading_labels_def tf_zeros_def)
  have tr: "gen_loss_tracker self' =
      update_state (gen_loss_tracker self)
        (loss_fn env misleading_labels
           (map2 (\<lambda>l h. [discriminator env (discriminator_weights self) l h]) samples_lr
              (map2 (generator env (generator_weights self)) samples_lr noise)))"
    using train_step_Inr_generator(4) [OF t assms(1)] lb
    by (simp add: g_loss_of_def noise_def)
  have nw: "\<And>gw. noise_of env (self\<lparr>generator_weights := gw\<rparr>) (samples_lr, samples_hr) =
                  noise_of env self (samples_lr, samples_hr)"
    by (simp add: noise_of_def)
  have w: "generator_weights self' =
      fst (g_optimizer env (g_optimizer_state self)
        (gradient_g env
           (\<lambda>gw. loss_fn env misleading_labels
              (map2 (\<lambda>l h. [discriminator env (discriminator_weights self) l h]) samples_lr
                 (map2 (generator env gw) samples_lr noise)))
           (generator_weights self))
        (generator_weights self))"
    using train_step_Inr_generator(5) [OF t assms(1)] lb
    by (simp add: g_loss_of_def nw noise_def)
  show ?thesis
    using t n tr w assms(2) train_step_Inr_generator(1,2) [OF t assms(1)]
    by (simp add: misleading_labels_def)
qed


theorem generator_branch_loss_witness:
  "selected_branch stub_after_1 = Generator_branch \<and>
   length [1::real] = 1 \<and> length [3::real] = 1 \<and>
   train_step stub_env stub_after_1 ([1], [3]) =
     Inr (stub_after_2, [(''g_loss'', 1), (''d_loss'', 4)]) \<and>
   unstack (noise_of stub_env stub_after_1 ([1], [3])) = [Scalar 1] \<and>
   gen_loss_tracker stub_after_2 =
     update_state (gen_loss_tracker stub_after_1)
       (loss_fn stub_env [[0]]
          (map2 (\<lambda>l h. [discriminator stub_env (discriminator_weights stub_after_1) l h]) [1]
             (map2 (generator stub_env (generator_weights stub_after_1)) [1] [Scalar 1]))) \<and>
   discriminator_weights stub_after_2 = discriminator_weights stub_after_1"
proof -
  have b: "selected_branch stub_after_1 = Generator_branch" by (rule stub_branches(2))
  have c: "train_step stub_env stub_after_1 ([1], [3]) =
      Inr (stub_after_2, [(''g_loss'', 1), (''d_loss'', 4)])"
    using stub_call_2 by (simp add: stub_batch_def)
  show ?thesis
    using generator_branch_loss [where env = stub_env and self = stub_after_1
        and samples_lr = "[1]" and samples_hr = "[3]" and B = 1, OF b]
      b c
    by (simp add: stub_noise_2)
qed


section \<open>The loss trackers\<close>

text \<open>
  Claim C5. A call of \<open>train_step\<close> that returns updates one loss tracker with the loss
  of that call and leaves the other as it was: the value the discriminator tracker
  reports changes only on a discriminator-branch call, the value the generator tracker
  reports only on a generator-branch call.
\<close>

theorem train_step_updates_one_tracker:
  assumes "train_step env self data = Inr (self', logs)"
  shows "(selected_branch self = Discriminator_branch \<longrightarrow>
            disc_loss_tracker self' = update_state (disc_loss_tracker self) (step_loss env self data) \<and>
            gen_loss_tracker self' = gen_loss_tracker self \<and>
            result (gen_loss_tracker self') = result (gen_loss_tracker self)) \<and>
         (selected_branch self = Generator_branch \<longrightarrow>
            gen_loss_tracker self' = update_state (gen_loss_tracker self) (step_loss env self data) \<and>
            disc_loss_tracker self' = disc_loss_tracker self \<and>
            result (disc_loss_tracker self') = result (disc_loss_tracker self)) \<and>
         (result (disc_loss_tracker self') \<noteq> result (disc_loss_tracker self) \<longrightarrow>
            selected_branch self = Discriminator_branch) \<and>
         (result (gen_loss_tracker self') \<noteq> result (gen_loss_tracker self) \<longrightarrow>
            selected_branch self = Generator_branch)"
  using train_step_Inr_discriminator(3,4) [OF assms] train_step_Inr_generator(3,4) [OF assms]
  by (cases "selected_branch self") (simp_all add: step_loss_def)

theorem train_step_updates_one_tracker_witness:
  "train_step stub_env tiny_gan stub_batch = Inr (stub_after_1, [(''g_loss'', 0), (''d_loss'', 4)]) \<and>
   selected_branch tiny_gan = Discriminator_branch \<and>
   step_loss stub_env tiny_gan stub_batch = 4 \<and>
   disc_loss_tracker stub_after_1 = update_state (disc_loss_tracker tiny_gan) 4 \<and>
   result (disc_loss_tracker tiny_gan) = 0 \<and>
   result (disc_loss_tracker stub_after_1) = 4 \<and>
   result (gen_loss_tracker stub_after_1) = result (gen_loss_tracker tiny_gan) \<and>
   train_step stub_env stub_after_1 stub_batch = Inr (stub_after_2, [(''g_loss'', 1), (''d_loss'', 4)]) \<and>
   selected_branch stub_after_1 = Generator_branch \<and>
   step_loss stub_env stub_after_1 stub_batch = 1 \<and>
   gen_loss_tracker stub_after_2 = update_state (gen_loss_tracker stub_after_1) 1 \<and>
   result (gen_loss_tracker stub_after_1) = 0 \<and>
   result (gen_loss_tracker stub_after_2) = 1 \<and>
   result (disc_loss_tracker stub_after_2) = result (disc_loss_tracker stub_after_1)"
proof -
  have l1: "step_loss stub_env tiny_gan stub_batch = 4"
    by (simp add: step_loss_def stub_branches d_loss_of_def stub_batch_def stub_noise_1)
       (simp add: stub_env_def tiny_gan_def init_def tf_ones_def tf_zeros_def)
  have l2: "step_loss stub_env stub_after_1 stub_batch = 1"
    by (simp add: step_loss_def stub_branches g_loss_of_def stub_batch_def stub_noise_2)
       (simp add: stub_env_def stub_after_1_def tf_zeros_def)
  note t1 = train_step_updates_one_tracker [OF stub_call_1]
  note t2 = train_step_updates_one_tracker [OF stub_call_2]
  have a: "disc_loss_tracker stub_after_1 = update_state (disc_loss_tracker tiny_gan) 4"
    "result (gen_loss_tracker stub_after_1) = result (gen_loss_tracker tiny_gan)"
    using t1 stub_branches(1) l1 by simp_all
  have b: "gen_loss_tracker stub_after_2 = update_state (gen_loss_tracker stub_after_1) 1"
    "result (disc_loss_tracker stub_after_2) = result (disc_loss_tracker stub_after_1)"
    using t2 stub_branches(2) l2 by simp_all
  have v: "result (disc_loss_tracker tiny_gan) = 0" "result (disc_loss_tracker stub_after_1) = 4"
    "result (gen_loss_tracker stub_after_1) = 0" "result (gen_loss_tracker stub_after_2) = 1"
    by (simp_all add: tiny_gan_def init_def stub_after_1_def stub_after_2_def Mean_new_def
        result_def div_no_nan_def)
  show ?thesis
    using a b v stub_call_1 stub_call_2 stub_branches(1,2) l1 l2 by simp
qed


text \<open>
  Claim C6, as the specification states it, fails on the training run of the notebook.
  The class lists both trackers in its \<open>metrics\<close> property, and \<open>fit\<close> resets the listed
  metrics at the start of every epoch. After three epochs of one batch each, the
  discriminator tracker reports 1, the loss of the last epoch, while the mean of the
  two discriminator losses recorded since construction is \<open>5 / 2\<close>; the generator tracker
  reports 0 although a generator loss of 1 was recorded in the second epoch.
\<close>

theorem trackers_across_epochs_counterexample:
  "fit stub_env tiny_gan [[stub_batch], [stub_batch], [stub_batch]] = Inr stub_fit_end \<and>
   fit_history stub_env tiny_gan [[stub_batch], [stub_batch], [stub_batch]] =
     [(Discriminator_branch, 4), (Generator_branch, 1), (Discriminator_branch, 1)] \<and>
   result (disc_loss_tracker stub_fit_end) = 1 \<and>
   mean (losses_of Discriminator_branch
     (fit_history stub_env tiny_gan [[stub_batch], [stub_batch], [stub_batch]])) = 5 / 2 \<and>
   result (gen_loss_tracker stub_fit_end) = 0 \<and>
   mean (losses_of Generator_branch
     (fit_history stub_env tiny_gan [[stub_batch], [stub_batch], [stub_batch]])) = 1 \<and>
   result (disc_loss_tracker stub_fit_end) \<noteq>
     mean (losses_of Discriminator_branch
       (fit_history stub_env tiny_gan [[stub_batch], [stub_batch], [stub_batch]])) \<and>
   result (gen_loss_tracker stub_fit_end) \<noteq>
     mean (losses_of Generator_branch
       (fit_history stub_env tiny_gan [[stub_batch], [stub_batch], [stub_batch]]))"
  unfolding stub_fit_history
  by (simp add: stub_fit stub_fit_end_def result_def div_no_nan_def losses_of_def mean_def
      del: fit.simps)

text \<open>
  Claim C6, amended. Each loss tracker holds the arithmetic mean of the loss values
  recorded for its network since the tracker was last reset, and 0 when there are
  none. \<open>train_step\<close> never resets a tracker: after any sequence of \<open>train_step\<close> calls on
  a freshly constructed trainer, each tracker reports the mean of every loss recorded
  for it since construction. The \<open>fit\<close> driver resets both trackers at the start of
  every epoch: after \<open>fit\<close>, each tracker reports the mean of the losses recorded during
  the last epoch.
\<close>

theorem trackers_report_mean_since_reset:
  fixes env :: "('x, 'y, 'gw, 'dw, 'go, 'do, 'r) collaborators"
    and self :: "('gw, 'dw, 'go, 'do, 'r) DownscalingGAN"
    and dw :: 'dw and gw :: 'gw and shape :: "nat list" and d_opt :: 'do and g_opt :: 'go
    and seed :: 'r
  assumes "list_all well_formed batches" and "fit env self epochs = Inr mid"
  defines "gan \<equiv> init dw gw shape d_opt g_opt seed"
  shows "(\<exists>final.
      train_steps env gan batches = Inr final \<and>
      result (disc_loss_tracker final) =
        mean (losses_of Discriminator_branch (history env gan batches)) \<and>
      result (gen_loss_tracker final) =
        mean (losses_of Generator_branch (history env gan batches))) \<and>
    (\<exists>final.
      fit env self (epochs @ [batches]) = Inr final \<and>
      result (disc_loss_tracker final) =
        mean (losses_of Discriminator_branch (history env (reset_metrics mid) batches)) \<and>
      result (gen_loss_tracker final) =
        mean (losses_of Generator_branch (history env (reset_metrics mid) batches)))"
proof -
  obtain f1 where f1: "train_steps env gan batches = Inr f1"
    using train_steps_returns [OF assms(1)] by blast
  have z: "total (disc_loss_tracker gan) = 0" "count (disc_loss_tracker gan) = 0"
    "total (gen_loss_tracker gan) = 0" "count (gen_loss_tracker gan) = 0"
    by (simp_all add: gan_def init_def Mean_new_def)
  note m1 = train_steps_means [OF f1 z]
  obtain f2 where f2: "train_steps env (reset_metrics mid) batches = Inr f2"
    using train_steps_returns [OF assms(1)] by blast
  note m2 = train_steps_means [OF f2 reset_metrics_trackers(1,2,3,4)]
  have e: "fit env self (epochs @ [batches]) = Inr f2"
    using assms(2) f2 by (simp add: fit_snoc)
  show ?thesis using f1 m1 e m2 by blast
qed

theorem trackers_report_mean_since_reset_witness:
  "list_all well_formed [stub_batch] \<and>
   fit stub_env tiny_gan [[stub_batch], [stub_batch]] = Inr stub_fit_mid \<and>
   train_steps stub_env tiny_gan [stub_batch] = Inr stub_after_1 \<and>
   result (disc_loss_tracker stub_after_1) =
     mean (losses_of Discriminator_branch (history stub_env tiny_gan [stub_batch])) \<and>
   result (gen_loss_tracker stub_after_1) =
     mean (losses_of Generator_branch (history stub_env tiny_gan [stub_batch])) \<and>
   fit stub_env tiny_gan ([[stub_batch], [stub_batch]] @ [[stub_batch]]) = Inr stub_fit_end \<and>
   result (disc_loss_tracker stub_fit_end) =
     mean (losses_of Discriminator_branch (history stub_env (reset_metrics stub_fit_mid) [stub_batch])) \<and>
   result (gen_loss_tracker stub_fit_end) =
     mean (losses_of Generator_branch (history stub_env (reset_metrics stub_fit_mid) [stub_batch]))"
proof -
  have w: "list_all well_formed [stub_batch]" by (simp add: well_formed_def stub_batch_def)
  have a: "train_steps stub_env tiny_gan [stub_batch] = Inr stub_after_1"
    by (simp add: stub_call_1)
  have b: "fit stub_env tiny_gan ([[stub_batch], [stub_batch]] @ [[stub_batch]]) = Inr stub_fit_end"
    using stub_fit by simp
  note t = trackers_report_mean_since_reset [OF w stub_fit_two,
      where dw = 1 and gw = 1 and shape = "[]" and d_opt = 0 and g_opt = 0 and seed = 0]
  have c: "result (disc_loss_tracker stub_after_1) =
     mean (losses_of Discriminator_branch (history stub_env tiny_gan [stub_batch]))"
    "result (gen_loss_tracker stub_after_1) =
     mean (losses_of Generator_branch (history stub_env tiny_gan [stub_batch]))"
    using t a unfolding tiny_gan_def by auto
  have d: "result (disc_loss_tracker stub_fit_end) =
     mean (losses_of Discriminator_branch (history stub_env (reset_metrics stub_fit_mid) [stub_batch]))"
    "result (gen_loss_tracker stub_fit_end) =
     mean (losses_of Generator_branch (history stub_env (reset_metrics stub_fit_mid) [stub_batch]))"
    using t b by auto
  show ?thesis using w stub_fit_two a b c d by blast
qed

section \<open>The returned dictionary\<close>

text \<open>
  Claim C7, as the specification states it, fails: the dictionary \<open>train_step\<close> returns
  has no entry under \<open>generator_loss\<close> or \<open>discriminator_loss\<close> (these are the names
  given to the two metrics); its keys are \<open>g_loss\<close> and \<open>d_loss\<close>.
\<close>

theorem train_step_keys_counterexample:
  "logged ''generator_loss'' (train_step stub_env tiny_gan stub_batch) = None \<and>
   logged ''discriminator_loss'' (train_step stub_env tiny_gan stub_batch) = None \<and>
   logged ''g_loss'' (train_step stub_env tiny_gan stub_batch) = Some 0 \<and>
   logged ''d_loss'' (train_step stub_env tiny_gan stub_batch) = Some 4"
  by (simp add: stub_call_1 logged_def)

text \<open>
  Claim C7, amended. Every call of \<open>train_step\<close> on a batch whose two arrays have the
  same batch size returns a dictionary with the keys \<open>g_loss\<close> and \<open>d_loss\<close>, whose
  values are the running means the generator and the discriminator loss tracker report
  after the call; this holds in every state, so from the first call onward.
\<close>

theorem train_step_returns_running_means:
  assumes "well_formed data"
  shows "\<exists>self'.
    train_step env self data =
      Inr (self', [(''g_loss'', result (gen_loss_tracker self')),
                   (''d_loss'', result (disc_loss_tracker self'))]) \<and>
    logged ''g_loss'' (train_step env self data) = Some (result (gen_loss_tracker self')) \<and>
    logged ''d_loss'' (train_step env self data) = Some (result (disc_loss_tracker self'))"
proof -
  obtain self' logs where t: "train_step env self data = Inr (self', logs)"
    using train_step_returns [OF assms] by blast
  have "logs = [(''g_loss'', result (gen_loss_tracker self')),
                (''d_loss'', result (disc_loss_tracker self'))]"
    using train_step_Inr_discriminator(7) [OF t] train_step_Inr_generator(7) [OF t]
    by (cases "selected_branch self") simp_all
  with t show ?thesis by (simp add: logged_def)
qed

theorem train_step_returns_running_means_witness:
  "well_formed stub_batch \<and>
   train_step stub_env stub_after_2 stub_batch =
     Inr (stub_after_3, [(''g_loss'', 1), (''d_loss'', 5 / 2)]) \<and>
   result (gen_loss_tracker stub_after_3) = 1 \<and>
   result (disc_loss_tracker stub_after_3) = 5 / 2 \<and>
   logged ''g_loss'' (train_step stub_env stub_after_2 stub_batch) = Some 1 \<and>
   logged ''d_loss'' (train_step stub_env stub_after_2 stub_batch) = Some (5 / 2)"
proof -
  have w: "well_formed stub_batch" by (simp add: well_formed_def stub_batch_def)
  have v: "result (gen_loss_tracker stub_after_3) = 1"
    "result (disc_loss_tracker stub_after_3) = 5 / 2"
    by (simp_all add: stub_after_3_def result_def div_no_nan_def)
  show ?thesis
    using train_step_returns_running_means [OF w, of stub_env stub_after_2] w v stub_call_3
    by (simp add: logged_def)
qed

text \<open>
  Claim C10. The first call of \<open>train_step\<close> on a freshly constructed trainer runs the
  discriminator branch; after it the generator tracker has recorded no value and reports
  exactly 0, which is the value returned under \<open>g_loss\<close>. Any tracker that has recorded
  nothing reports 0: \<open>result\<close> divides with \<open>div_no_nan\<close>.
\<close>

theorem first_call_generator_loss_zero:
  fixes env :: "('x, 'y, 'gw, 'dw, 'go, 'do, 'r) collaborators"
    and dw :: 'dw and gw :: 'gw and shape :: "nat list" and d_opt :: 'do and g_opt :: 'go
    and seed :: 'r
  assumes "well_formed data"
  defines "gan \<equiv> init dw gw shape d_opt g_opt seed"
  shows "\<exists>self' logs.
    train_step env gan data = Inr (self', logs) \<and>
    selected_branch gan = Discriminator_branch \<and>
    count (gen_loss_tracker self') = 0 \<and>
    result (gen_loss_tracker self') = 0 \<and>
    logged ''g_loss'' (train_step env gan data) = Some 0 \<and>
    result (gen_loss_tracker gan) = 0 \<and>
    result (disc_loss_tracker gan) = 0 \<and>
    result Mean_new = 0 \<and>
    (\<forall>m. count m = 0 \<longrightarrow> result m = 0)"
proof -
  obtain self' logs where t: "train_step env gan data = Inr (self', logs)"
    using train_step_returns [OF assms(1)] by blast
  have b: "selected_branch gan = Discriminator_branch"
    by (simp add: selected_branch_def gan_def init_def)
  have g: "gen_loss_tracker self' = gen_loss_tracker gan"
    using train_step_Inr_discriminator(3) [OF t b] .
  have c: "count (gen_loss_tracker gan) = 0" "count (disc_loss_tracker gan) = 0" "count Mean_new = 0"
    by (simp_all add: gan_def init_def Mean_new_def)
  have l: "logs = [(''g_loss'', result (gen_loss_tracker self')),
                   (''d_loss'', result (disc_loss_tracker self'))]"
    using train_step_Inr_discriminator(7) [OF t b] .
  show ?thesis
    using t b g c l result_empty by (simp add: logged_def)
qed

theorem first_call_generator_loss_zero_witness:
  "well_formed stub_batch \<and>
   train_step stub_env tiny_gan stub_batch = Inr (stub_after_1, [(''g_loss'', 0), (''d_loss'', 4)]) \<and>
   selected_branch tiny_gan = Discriminator_branch \<and>
   count (gen_loss_tracker stub_after_1) = 0 \<and>
   result (gen_loss_tracker stub_after_1) = 0 \<and>
   logged ''g_loss'' (train_step stub_env tiny_gan stub_batch) = Some 0"
proof -
  have w: "well_formed stub_batch" by (simp add: well_formed_def stub_batch_def)
  show ?thesis
    using first_call_generator_loss_zero [OF w, of stub_env 1 1 "[]" 0 0 0] w stub_call_1
    by (simp add: tiny_gan_def)
qed

section \<open>Noise and determinism\<close>

text \<open>
  Claim C8. On every call of \<open>train_step\<close> with batch size \<open>B\<close> on a trainer whose noise
  shape is the constructor's default, the noise is a tensor of shape \<open>(B, 4, 4, 8)\<close>
  whose \<open>B * 4 * 4 * 8\<close> entries are, in row-major order, as many successive draws of
  the normal sampler with mean 0 and standard deviation 1, starting from the current
  state of the random generator. It is drawn whichever branch runs, and it is the noise
  the branch that runs gives the generator. The call leaves the random generator in the
  state after these draws and keeps no noise: the next call draws its own from there.
  The default noise shape is set by the constructor and kept by every call and by the
  reset of the metrics, so this holds in every state of a training run.
\<close>

theorem noise_drawn_every_call:
  fixes env :: "('x, 'y, 'gw, 'dw, 'go, 'do, 'r) collaborators"
    and self :: "('gw, 'dw, 'go, 'do, 'r) DownscalingGAN"
    and samples_lr :: "'x list" and samples_hr :: "'y list" and B :: nat
    and dw :: 'dw and gw :: 'gw and d_opt :: 'do and g_opt :: 'go and seed :: 'r
  assumes "noise_shape self = default_noise_shape"
    and "length samples_lr = B" and "length samples_hr = B"
  defines "draw \<equiv> tf_random_normal (normal env) [B, 4, 4, 8] 0 1 (rng self)"
  defines "advance \<equiv> (\<lambda>s. snd (normal env 0 1 s))"
  shows "\<exists>self' logs.
    train_step env self (samples_lr, samples_hr) = Inr (self', logs) \<and>
    has_shape [B, 4, 4, 8] (fst draw) \<and>
    entries (fst draw) =
      map (\<lambda>k. fst (normal env 0 1 ((advance ^^ k) (rng self)))) [0..<B * 4 * 4 * 8] \<and>
    snd draw = (advance ^^ (B * 4 * 4 * 8)) (rng self) \<and>
    noise_of env self (samples_lr, samples_hr) = fst draw \<and>
    rng self' = snd draw \<and>
    (\<forall>data'. noise_of env self' data' =
       fst (tf_random_normal (normal env) [length (snd data'), 4, 4, 8] 0 1 (snd draw))) \<and>
    (selected_branch self = Discriminator_branch \<longrightarrow>
       disc_loss_tracker self' =
         update_state (disc_loss_tracker self)
           (loss_fn env (tf_ones (B, 1) @ tf_zeros (B, 1))
              (map2 (\<lambda>l h. [discriminator env (discriminator_weights self) l h])
                 (samples_lr @ samples_lr)
                 (map2 (generator env (generator_weights self)) samples_lr (unstack (fst draw)) @
                  samples_hr)))) \<and>
    (selected_branch self = Generator_branch \<longrightarrow>
       gen_loss_tracker self' =
         update_state (gen_loss_tracker self)
           (loss_fn env (tf_zeros (B, 1))
              (map2 (\<lambda>l h. [discriminator env (discriminator_weights self) l h]) samples_lr
                 (map2 (generator env (generator_weights self)) samples_lr (unstack (fst draw)))))) \<and>
    noise_shape self' = default_noise_shape \<and>
    noise_shape (reset_metrics self') = default_noise_shape \<and>
    noise_shape (init dw gw default_noise_shape d_opt g_opt seed) = default_noise_shape"
proof -
  have sh: "noise_shape self = [4, 4, 8]"
    using assms(1) by (simp add: default_noise_shape_def)
  have wf: "well_formed (samples_lr, samples_hr)" using assms(2,3) by (simp add: well_formed_def)
  obtain self' logs where t: "train_step env self (samples_lr, samples_hr) = Inr (self', logs)"
    using train_step_returns [OF wf] by blast
  have n: "noise_of env self (samples_lr, samples_hr) = fst draw"
    using sh assms(3) by (simp add: noise_of_def draw_def del: tf_random_normal.simps)
  have h: "has_shape [B, 4, 4, 8] (fst draw)"
    unfolding draw_def by (rule tf_random_normal_has_shape)
  have e: "entries (fst draw) =
      map (\<lambda>k. fst (normal env 0 1 ((advance ^^ k) (rng self)))) [0..<B * 4 * 4 * 8]"
    unfolding draw_def advance_def
    using tf_random_normal_draws(1) [of "normal env" "[B, 4, 4, 8]" 0 1 "rng self"]
    by (simp add: mult.assoc del: tf_random_normal.simps)
  have a: "snd draw = (advance ^^ (B * 4 * 4 * 8)) (rng self)"
    unfolding draw_def advance_def
    using tf_random_normal_draws(2) [of "normal env" "[B, 4, 4, 8]" 0 1 "rng self"]
    by (simp add: mult.assoc del: tf_random_normal.simps)
  have r: "rng self' = snd draw"
    using train_step_Inr_discriminator(6) [OF t] train_step_Inr_generator(6) [OF t] sh assms(3)
    by (cases "selected_branch self") (simp_all add: draw_def del: tf_random_normal.simps)
  have d: "selected_branch self = Discriminator_branch \<longrightarrow>
       disc_loss_tracker self' =
         update_state (disc_loss_tracker self)
           (loss_fn env (tf_ones (B, 1) @ tf_zeros (B, 1))
              (map2 (\<lambda>l h. [discriminator env (discriminator_weights self) l h])
                 (samples_lr @ samples_lr)
                 (map2 (generator env (generator_weights self)) samples_lr (unstack (fst draw)) @
                  samples_hr)))"
    using train_step_Inr_discriminator(4) [OF t] n assms(3)
    by (simp add: d_loss_of_def)
  have g: "selected_branch self = Generator_branch \<longrightarrow>
       gen_loss_tracker self' =
         update_state (gen_loss_tracker self)
           (loss_fn env (tf_zeros (B, 1))
              (map2 (\<lambda>l h. [discriminator env (discriminator_weights self) l h]) samples_lr
                 (map2 (generator env (generator_weights self)) samples_lr (unstack (fst draw)))))"
    using train_step_Inr_generator(4) [OF t] n assms(3)
    by (simp add: g_loss_of_def)
  have s': "noise_shape self' = [4, 4, 8]"
    using train_step_step(2) [OF t] sh by simp
  have x: "\<forall>data'. noise_of env self' data' =
       fst (tf_random_normal (normal env) [length (snd data'), 4, 4, 8] 0 1 (snd draw))"
    using r s' by (simp add: noise_of_def del: tf_random_normal.simps)
  have k: "noise_shape self' = default_noise_shape"
    "noise_shape (reset_metrics self') = default_noise_shape"
    "noise_shape (init dw gw default_noise_shape d_opt g_opt seed) = default_noise_shape"
    using s' by (simp_all add: default_noise_shape_def reset_metrics_frame init_def)
  show ?thesis using t h e a n r x d g k by blast
qed

theorem noise_drawn_every_call_witness:
  "noise_shape stub_gan_after_1 = default_noise_shape \<and>
   length [1::real] = 1 \<and> length [3::real] = 1 \<and>
   train_step stub_env stub_gan ([1], [3]) =
     Inr (stub_gan_after_1, [(''g_loss'', 0), (''d_loss'', 8132)]) \<and>
   train_step stub_env stub_gan_after_1 ([1], [3]) =
     Inr (stub_gan_after_2, [(''g_loss'', 24512), (''d_loss'', 8132)]) \<and>
   selected_branch stub_gan_after_1 = Generator_branch \<and>
   has_shape [1, 4, 4, 8] (noise_of stub_env stub_gan_after_1 ([1], [3])) \<and>
   entries (noise_of stub_env stub_gan_after_1 ([1], [3])) = map real [128..<256] \<and>
   rng stub_gan_after_1 = 128 \<and>
   rng stub_gan_after_2 = 256"
proof -
  have s: "noise_shape stub_gan_after_1 = default_noise_shape"
    by (simp add: stub_gan_after_1_def default_noise_shape_def)
  have c1: "train_step stub_env stub_gan ([1], [3]) =
      Inr (stub_gan_after_1, [(''g_loss'', 0), (''d_loss'', 8132)])"
    using stub_gan_call_1 by (simp add: stub_batch_def)
  have c2: "train_step stub_env stub_gan_after_1 ([1], [3]) =
      Inr (stub_gan_after_2, [(''g_loss'', 24512), (''d_loss'', 8132)])"
    using stub_gan_call_2 by (simp add: stub_batch_def)
  have b: "selected_branch stub_gan_after_1 = Generator_branch"
    by (simp add: selected_branch_def stub_gan_after_1_def)
  have r: "rng stub_gan_after_1 = 128" "rng stub_gan_after_2 = 256"
    by (simp_all add: stub_gan_after_1_def stub_gan_after_2_def)
  have m: "map (\<lambda>k. real (128 + k)) [0..<128] = map real [128..<256]"
    using map_real_shift [of 128 128] by (simp only: numeral_plus_numeral semiring_norm)
  have l: "length [1::real] = 1" "length [3::real] = 1" by simp_all
  note t = noise_drawn_every_call [where env = stub_env and self = stub_gan_after_1
      and samples_lr = "[1]" and samples_hr = "[3]" and B = 1
      and dw = 0 and gw = 0 and d_opt = 0 and g_opt = 0 and seed = 0, OF s l]
  from t have n: "noise_of stub_env stub_gan_after_1 ([1], [3]) =
      fst (tf_random_normal (normal stub_env) [1, 4, 4, 8] 0 1 (rng stub_gan_after_1))"
    by blast
  from t have h: "has_shape [1, 4, 4, 8] (noise_of stub_env stub_gan_after_1 ([1], [3]))"
    unfolding n by blast
  from t have "entries (noise_of stub_env stub_gan_after_1 ([1], [3])) =
      map (\<lambda>k. fst (normal stub_env 0 1
        (((\<lambda>s. snd (normal stub_env 0 1 s)) ^^ k) (rng stub_gan_after_1)))) [0..<1 * 4 * 4 * 8]"
    unfolding n by blast
  also have "\<dots> = map (\<lambda>k. real (128 + k)) [0..<128]"
    unfolding stub_normal_funpow r by (simp add: stub_env_def del: upt_Suc)
  finally have e: "entries (noise_of stub_env stub_gan_after_1 ([1], [3])) = map real [128..<256]"
    by (simp only: m)
  show ?thesis using s c1 c2 b h e r by simp
qed

text \<open>
  Claim C9, as the specification states it, fails for the loss values \<open>train_step\<close>
  returns. They are the running means of the trackers: two trainers with the same
  generator state, the same frozen parameters and the same step counter, one with fresh
  trackers and one whose discriminator tracker has recorded two values of sum 10,
  return 4 and \<open>14 / 3\<close> under \<open>d_loss\<close> for the same batch.
\<close>

theorem train_step_returned_loss_counterexample:
  "rng tiny_gan = rng tiny_gan_used \<and>
   generator_weights tiny_gan = generator_weights tiny_gan_used \<and>
   discriminator_weights tiny_gan = discriminator_weights tiny_gan_used \<and>
   step_number tiny_gan = step_number tiny_gan_used \<and>
   train_step frozen_env tiny_gan stub_batch =
     Inr (frozen_after_1, [(''g_loss'', 0), (''d_loss'', 4)]) \<and>
   train_step frozen_env tiny_gan_used stub_batch =
     Inr (frozen_used_after_1, [(''g_loss'', 0), (''d_loss'', 14 / 3)]) \<and>
   generator_weights frozen_after_1 = generator_weights tiny_gan \<and>
   discriminator_weights frozen_after_1 = discriminator_weights tiny_gan \<and>
   generator_weights frozen_used_after_1 = generator_weights tiny_gan_used \<and>
   discriminator_weights frozen_used_after_1 = discriminator_weights tiny_gan_used \<and>
   logged ''d_loss'' (train_step frozen_env tiny_gan stub_batch) = Some 4 \<and>
   logged ''d_loss'' (train_step frozen_env tiny_gan_used stub_batch) = Some (14 / 3) \<and>
   logged ''d_loss'' (train_step frozen_env tiny_gan stub_batch) \<noteq>
     logged ''d_loss'' (train_step frozen_env tiny_gan_used stub_batch)"
  unfolding frozen_call frozen_call_used
  by (simp add: logged_def tiny_gan_used_def tiny_gan_def init_def frozen_after_1_def
      frozen_used_after_1_def)

text \<open>
  Claim C9, amended. Two calls of \<open>train_step\<close> with the same collaborators on the same
  batch, in two states with the same random generator state, the same network
  parameters, the same step counter and the same noise shape, run the same branch and
  compute the same loss for the step, whatever the trackers and the optimizer slots
  hold, and each records that loss in the tracker of the branch. The loss values the
  calls return are the trackers' running means: they are equal when the loss trackers of
  the two trainers hold the same state too.
\<close>

theorem train_step_deterministic:
  assumes "rng s1 = rng s2"
    and "generator_weights s1 = generator_weights s2"
    and "discriminator_weights s1 = discriminator_weights s2"
    and "step_number s1 = step_number s2"
    and "noise_shape s1 = noise_shape s2"
    and "train_step env s1 data = Inr (s1', logs1)"
    and "train_step env s2 data = Inr (s2', logs2)"
  shows "selected_branch s1 = selected_branch s2 \<and>
    step_loss env s1 data = step_loss env s2 data \<and>
    (selected_branch s1 = Discriminator_branch \<longrightarrow>
       disc_loss_tracker s1' = update_state (disc_loss_tracker s1) (step_loss env s1 data) \<and>
       disc_loss_tracker s2' = update_state (disc_loss_tracker s2) (step_loss env s1 data)) \<and>
    (selected_branch s1 = Generator_branch \<longrightarrow>
       gen_loss_tracker s1' = update_state (gen_loss_tracker s1) (step_loss env s1 data) \<and>
       gen_loss_tracker s2' = update_state (gen_loss_tracker s2) (step_loss env s1 data)) \<and>
    (gen_loss_tracker s1 = gen_loss_tracker s2 \<and> disc_loss_tracker s1 = disc_loss_tracker s2 \<longrightarrow>
       logs1 = logs2)"
proof -
  have c: "step_loss env s1 data = step_loss env s2 data"
    "selected_branch s1 = selected_branch s2"
    "d_loss_of env s1 data = d_loss_of env s2 data"
    "g_loss_of env s1 data = g_loss_of env s2 data"
    by (rule step_loss_cong [OF assms(1-5)])+
  have d: "selected_branch s1 = Discriminator_branch \<longrightarrow>
       disc_loss_tracker s1' = update_state (disc_loss_tracker s1) (step_loss env s1 data) \<and>
       disc_loss_tracker s2' = update_state (disc_loss_tracker s2) (step_loss env s1 data) \<and>
       gen_loss_tracker s1' = gen_loss_tracker s1 \<and> gen_loss_tracker s2' = gen_loss_tracker s2"
    using train_step_Inr_discriminator(3,4) [OF assms(6)]
      train_step_Inr_discriminator(3,4) [OF assms(7)] c
    by (simp add: step_loss_def)
  have g: "selected_branch s1 = Generator_branch \<longrightarrow>
       gen_loss_tracker s1' = update_state (gen_loss_tracker s1) (step_loss env s1 data) \<and>
       gen_loss_tracker s2' = update_state (gen_loss_tracker s2) (step_loss env s1 data) \<and>
       disc_loss_tracker s1' = disc_loss_tracker s1 \<and> disc_loss_tracker s2' = disc_loss_tracker s2"
    using train_step_Inr_generator(3,4) [OF assms(6)]
      train_step_Inr_generator(3,4) [OF assms(7)] c
    by (simp add: step_loss_def)
  have l: "logs1 = [(''g_loss'', result (gen_loss_tracker s1')),
                    (''d_loss'', result (disc_loss_tracker s1'))]"
    "logs2 = [(''g_loss'', result (gen_loss_tracker s2')),
              (''d_loss'', result (disc_loss_tracker s2'))]"
    using train_step_Inr_discriminator(7) [OF assms(6)] train_step_Inr_generator(7) [OF assms(6)]
      train_step_Inr_discriminator(7) [OF assms(7)] train_step_Inr_generator(7) [OF assms(7)] c(2)
    by (cases "selected_branch s1"; simp)+
  have e: "gen_loss_tracker s1 = gen_loss_tracker s2 \<and> disc_loss_tracker s1 = disc_loss_tracker s2 \<longrightarrow>
       logs1 = logs2"
    using d g l by (cases "selected_branch s1") simp_all
  show ?thesis using c d g e by simp
qed

theorem train_step_deterministic_witness:
  "rng tiny_gan = rng tiny_gan_used \<and>
   generator_weights tiny_gan = generator_weights tiny_gan_used \<and>
   discriminator_weights tiny_gan = discriminator_weights tiny_gan_used \<and>
   step_number tiny_gan = step_number tiny_gan_used \<and>
   noise_shape tiny_gan = noise_shape tiny_gan_used \<and>
   disc_loss_tracker tiny_gan \<noteq> disc_loss_tracker tiny_gan_used \<and>
   train_step stub_env tiny_gan stub_batch = Inr (stub_after_1, [(''g_loss'', 0), (''d_loss'', 4)]) \<and>
   train_step stub_env tiny_gan_used stub_batch =
     Inr (tiny_gan_used_after_1, [(''g_loss'', 0), (''d_loss'', 14 / 3)]) \<and>
   step_loss stub_env tiny_gan stub_batch = 4 \<and>
   step_loss stub_env tiny_gan_used stub_batch = 4 \<and>
   disc_loss_tracker stub_after_1 = update_state (disc_loss_tracker tiny_gan) 4 \<and>
   disc_loss_tracker tiny_gan_used_after_1 = update_state (disc_loss_tracker tiny_gan_used) 4"
proof -
  have h: "rng tiny_gan = rng tiny_gan_used"
    "generator_weights tiny_gan = generator_weights tiny_gan_used"
    "discriminator_weights tiny_gan = discriminator_weights tiny_gan_used"
    "step_number tiny_gan = step_number tiny_gan_used"
    "noise_shape tiny_gan = noise_shape tiny_gan_used"
    by (simp_all add: tiny_gan_used_def)
  have n: "disc_loss_tracker tiny_gan \<noteq> disc_loss_tracker tiny_gan_used"
    by (simp add: tiny_gan_used_def tiny_gan_def init_def Mean_new_def)
  have l1: "step_loss stub_env tiny_gan stub_batch = 4"
    by (simp add: step_loss_def stub_branches d_loss_of_def stub_batch_def stub_noise_1)
       (simp add: stub_env_def tiny_gan_def init_def tf_ones_def tf_zeros_def)
  note t = train_step_deterministic [OF h stub_call_1 stub_call_used]
  have a: "step_loss stub_env tiny_gan_used stub_batch = 4"
    "disc_loss_tracker stub_after_1 = update_state (disc_loss_tracker tiny_gan) 4"
    "disc_loss_tracker tiny_gan_used_after_1 = update_state (disc_loss_tracker tiny_gan_used) 4"
    using t stub_branches(1) l1 by simp_all
  show ?thesis using h n l1 a stub_call_1 stub_call_used by simp
qed

end
